theory Spec2Isabelle
  imports Complex_Main "HOL-Library.AList" "HOL-Library.Multiset"
begin

section \<open>Values and documents\<close>

text \<open>
  A document is a Python \<open>dict\<close> that has been through \<open>json.dumps\<close> and \<open>json.loads\<close>: an
  ordered mapping from field names to JSON values. The values are modelled by the datatype
  \<open>jvalue\<close>: \<open>None\<close>, booleans, unbounded integers, strings and lists of such values.
  Strings are ASCII text (a \<open>char\<close> is one byte). Floating-point numbers and nested objects
  are left out of the value type.
\<close>

datatype jvalue = JNull | JBool bool | JInt int | JStr string | JList "jvalue list"

type_synonym document = "(string \<times> jvalue) list"

subsection \<open>Python's \<open>str\<close> and \<open>repr\<close>\<close>

definition digit_char :: "nat \<Rightarrow> char" where
  "digit_char d = (''0123456789abcdef'' ! (d mod 16))"

fun str_nat :: "nat \<Rightarrow> string" where
  "str_nat n = (if n < 10 then [digit_char n] else str_nat (n div 10) @ [digit_char (n mod 10)])"

declare str_nat.simps [simp del]

definition str_int :: "int \<Rightarrow> string" where
  "str_int i = (if i < 0 then CHR ''-'' # str_nat (nat (- i)) else str_nat (nat i))"

text \<open>
  \<open>repr\<close> of a string: single quotes, unless the string holds a single quote and no double
  quote; the quote character and the backslash are escaped, tab, newline and carriage return
  are written \<open>\t\<close>, \<open>\n\<close>, \<open>\r\<close>, and every other control character as \<open>\xNN\<close>.
\<close>

definition repr_char :: "char \<Rightarrow> char \<Rightarrow> string" where
  "repr_char q c =
     (if c = q \<or> c = CHR 0x5C then [CHR 0x5C, c]
      else if c = CHR 0x09 then [CHR 0x5C, CHR ''t'']
      else if c = CHR 0x0A then [CHR 0x5C, CHR ''n'']
      else if c = CHR 0x0D then [CHR 0x5C, CHR ''r'']
      else if (of_char c :: nat) < 32 \<or> c = CHR 0x7F
        then [CHR 0x5C, CHR ''x'', digit_char (of_char c div 16), digit_char (of_char c mod 16)]
      else [c])"

definition repr_str :: "string \<Rightarrow> string" where
  "repr_str s =
     (let q = (if CHR 0x27 \<in> set s \<and> CHR 0x22 \<notin> set s then CHR 0x22 else CHR 0x27)
      in [q] @ concat (map (repr_char q) s) @ [q])"

fun join :: "string \<Rightarrow> string list \<Rightarrow> string" where
  "join sep [] = []"
| "join sep [x] = x"
| "join sep (x # y # ys) = x @ sep @ join sep (y # ys)"

fun py_str :: "jvalue \<Rightarrow> string" and py_repr :: "jvalue \<Rightarrow> string" where
  "py_str JNull = ''None''"
| "py_str (JBool b) = (if b then ''True'' else ''False'')"
| "py_str (JInt i) = str_int i"
| "py_str (JStr s) = s"
| "py_str (JList xs) = ''['' @ join '', '' (map py_repr xs) @ '']''"
| "py_repr (JStr s) = repr_str s"
| "py_repr JNull = py_str JNull"
| "py_repr (JBool b) = py_str (JBool b)"
| "py_repr (JInt i) = py_str (JInt i)"
| "py_repr (JList xs) = py_str (JList xs)"

subsection \<open>Python's \<open>==\<close> on values\<close>

text \<open>
  \<open>bool\<close> is a subclass of \<open>int\<close> in Python: \<open>True == 1\<close> and \<open>False == 0\<close> hold. A string
  never equals a number, \<open>None\<close> equals only itself, and two lists are equal when they have
  the same length and equal elements.
\<close>

fun py_eq :: "jvalue \<Rightarrow> jvalue \<Rightarrow> bool" and py_eq_list :: "jvalue list \<Rightarrow> jvalue list \<Rightarrow> bool" where
  "py_eq JNull w = (w = JNull)"
| "py_eq (JStr s) w = (w = JStr s)"
| "py_eq (JBool a) w =
     (case w of JBool b \<Rightarrow> a = b | JInt j \<Rightarrow> (if a then 1 else 0) = j | _ \<Rightarrow> False)"
| "py_eq (JInt i) w =
     (case w of JInt j \<Rightarrow> i = j | JBool b \<Rightarrow> i = (if b then 1 else 0) | _ \<Rightarrow> False)"
| "py_eq (JList xs) w = (case w of JList ys \<Rightarrow> py_eq_list xs ys | _ \<Rightarrow> False)"
| "py_eq_list [] ys = (ys = [])"
| "py_eq_list (x # xs) ys = (case ys of [] \<Rightarrow> False | y # ys' \<Rightarrow> py_eq x y \<and> py_eq_list xs ys')"

text \<open>\<open>x in xs\<close> for a list \<open>xs\<close>.\<close>

definition py_in :: "jvalue \<Rightarrow> jvalue list \<Rightarrow> bool" where
  "py_in x xs = list_ex (py_eq x) xs"

section \<open>Tokenizer\<close>

text \<open>
  \<open>_tokenize\<close>: lowercase the text, take the maximal runs of word characters (\<open>\w+\<close>: letters,
  digits and the underscore), and keep the tokens that are longer than two characters and
  are not stopwords.
\<close>

definition lower_char :: "char \<Rightarrow> char" where
  "lower_char c =
     (case map_of (zip ''ABCDEFGHIJKLMNOPQRSTUVWXYZ'' ''abcdefghijklmnopqrstuvwxyz'') c of
        None \<Rightarrow> c | Some d \<Rightarrow> d)"

definition lower :: "string \<Rightarrow> string" where
  "lower text = map lower_char text"

definition is_word_char :: "char \<Rightarrow> bool" where
  "is_word_char c =
     (c \<in> set ''abcdefghijklmnopqrstuvwxyzABCDEFGHIJKLMNOPQRSTUVWXYZ0123456789_'')"

fun findall_words :: "string \<Rightarrow> string \<Rightarrow> string list" where
  "findall_words cur [] = (if cur = [] then [] else [cur])"
| "findall_words cur (c # cs) =
     (if is_word_char c then findall_words (cur @ [c]) cs
      else (if cur = [] then [] else [cur]) @ findall_words [] cs)"

definition stopwords :: "string list" where
  "stopwords = [''the'', ''a'', ''an'', ''and'', ''or'', ''but'', ''in'', ''on'', ''at'', ''to'', ''for'']"

definition tokenize :: "string \<Rightarrow> string list" where
  "tokenize text =
     filter (\<lambda>t. t \<notin> set stopwords \<and> length t > 2) (findall_words [] (lower text))"

section \<open>Engine state\<close>

text \<open>
  \<open>datetime.utcnow()\<close> is an input of the model: every operation that reads the clock takes
  the time of the call as its argument \<open>now\<close>.
\<close>

type_synonym timestamp = nat

record Index =
  uid :: string
  name :: string
  primary_key :: string
  created_at :: timestamp
  updated_at :: timestamp
  total_documents :: int
  facets :: "string list"
  ranking_rules :: "string list"
  searchable_attrs :: "string list"
  filterable_attrs :: "string list"
  sortable_attrs :: "string list"

text \<open>
  The SQLite database. A table is an association list from its primary key to the other
  columns, in some row order (SQL leaves the order of rows unspecified):
  \<^item> \<open>indexes\<close>, keyed by \<open>uid\<close>, one row of index metadata;
  \<^item> \<open>index_documents\<close>, keyed by \<open>(index_uid, doc_id)\<close>, the stored document;
  \<^item> \<open>term_index\<close>, keyed by \<open>(index_uid, term, doc_id, field)\<close>, the position list.
  The table \<open>field_stats\<close> is created and never read or written.
\<close>

type_synonym posting_key = "string \<times> string \<times> string \<times> string"

record database =
  indexes_tbl :: "(string \<times> Index) list"
  index_documents :: "((string \<times> string) \<times> document) list"
  term_index :: "(posting_key \<times> nat list) list"

text \<open>The engine: the dictionary \<open>self.indexes\<close> and the database file.\<close>

record engine =
  indexes :: "(string \<times> Index) list"
  db :: database

text \<open>
  Every failure of the source is a \<open>ValueError\<close> with a message, apart from the errors of the
  libraries. \<open>IndexNotFound\<close> and \<open>DocumentNotFound\<close> are the specification's NotFound,
  \<open>IndexAlreadyExists\<close> its AlreadyExists and \<open>MissingPrimaryKey\<close> its InvalidDocument.
\<close>

datatype error =
    IndexAlreadyExists string
  | IndexNotFound string
  | MissingPrimaryKey string
  | DocumentNotFound string
  | IntegrityError
  | KeyError string
  | MathDomainError

text \<open>
  \<open>with sqlite3.connect(path) as conn\<close>: the statements of the body run in one transaction
  (the module opens it before the first INSERT, UPDATE or DELETE). When the body ends
  normally the transaction is committed; when the body raises, the connection's
  \<open>__exit__\<close> rolls the transaction back and the exception goes on to the caller. Both
  functions take the database as it was when the block was entered and the database with
  the writes of the body.
\<close>

definition commit :: "database \<Rightarrow> database \<Rightarrow> database" where
  "commit entered written = written"

definition rollback :: "database \<Rightarrow> database \<Rightarrow> database" where
  "rollback entered written = entered"

section \<open>Index management\<close>

definition default_ranking_rules :: "string list" where
  "default_ranking_rules = [''typo'', ''words'', ''proximity'', ''attribute'', ''exactness'']"

text \<open>
  \<open>create_index\<close>. The INSERT fails with an integrity error when a row has the same \<open>uid\<close>
  (primary key) or the same \<open>name\<close> (declared UNIQUE).
\<close>

definition create_index ::
  "engine \<Rightarrow> string \<Rightarrow> string \<Rightarrow> string option \<Rightarrow> timestamp \<Rightarrow> (error + Index) \<times> engine" where
  "create_index e uid' primary_key' name_opt now =
     (case map_of (indexes e) uid' of
        Some _ \<Rightarrow> (Inl (IndexAlreadyExists uid'), e)
      | None \<Rightarrow>
          let name' = (case name_opt of None \<Rightarrow> uid' | Some n \<Rightarrow> if n = [] then uid' else n);
              index = \<lparr>uid = uid', name = name', primary_key = primary_key',
                       created_at = now, updated_at = now, total_documents = 0,
                       facets = [], ranking_rules = default_ranking_rules,
                       searchable_attrs = [], filterable_attrs = [], sortable_attrs = []\<rparr>
          in if list_ex (\<lambda>row. fst row = uid' \<or> name (snd row) = name') (indexes_tbl (db e))
             then (Inl IntegrityError, e\<lparr>db := rollback (db e) (db e)\<rparr>)
             else (Inr index,
                   \<lparr>indexes = AList.update uid' index (indexes e),
                    db = commit (db e)
                           ((db e)\<lparr>indexes_tbl := indexes_tbl (db e) @ [(uid', index)]\<rparr>)\<rparr>))"

subsection \<open>Ingestion\<close>

text \<open>
  The inner loops of \<open>add_documents\<close>: for every distinct term of a field,
  \<open>INSERT OR REPLACE\<close> the posting with the position list \<open>range(len(terms))\<close>; for every
  field of the document except the primary key, tokenize its stringified value.
\<close>

definition write_postings ::
  "string \<Rightarrow> string \<Rightarrow> string \<Rightarrow> string list \<Rightarrow> (posting_key \<times> nat list) list
     \<Rightarrow> (posting_key \<times> nat list) list" where
  "write_postings index_uid doc_id field terms tbl =
     fold (\<lambda>t. AList.update (index_uid, t, doc_id, field) [0..<length terms])
       (remdups terms) tbl"

fun build_term_index ::
  "string \<Rightarrow> string \<Rightarrow> string \<Rightarrow> document \<Rightarrow> (posting_key \<times> nat list) list
     \<Rightarrow> (posting_key \<times> nat list) list" where
  "build_term_index index_uid pk doc_id [] tbl = tbl"
| "build_term_index index_uid pk doc_id ((field, v) # rest) tbl =
     (if field = pk then build_term_index index_uid pk doc_id rest tbl
      else build_term_index index_uid pk doc_id rest
             (write_postings index_uid doc_id field (tokenize (py_str v)) tbl))"

text \<open>\<open>str(doc.get(primary_key, ""))\<close>\<close>

definition doc_id_of :: "string \<Rightarrow> document \<Rightarrow> string" where
  "doc_id_of pk doc = py_str (case map_of doc pk of None \<Rightarrow> JStr [] | Some v \<Rightarrow> v)"

text \<open>One round of the loop over the batch: the check of the primary key and the writes.\<close>

definition add_one :: "string \<Rightarrow> string \<Rightarrow> document \<Rightarrow> database \<Rightarrow> error + database" where
  "add_one index_uid pk doc d =
     (let doc_id = doc_id_of pk doc
      in if doc_id = [] then Inl (MissingPrimaryKey pk)
         else Inr (d\<lparr>index_documents := AList.update (index_uid, doc_id) doc (index_documents d),
                     term_index := build_term_index index_uid pk doc_id doc (term_index d)\<rparr>))"

text \<open>
  The loop over the batch. When a document raises, the result holds the database with the
  writes made so far, which are still uncommitted.
\<close>

fun add_documents_loop ::
  "string \<Rightarrow> string \<Rightarrow> document list \<Rightarrow> database \<Rightarrow> (error + unit) \<times> database" where
  "add_documents_loop index_uid pk [] d = (Inr (), d)"
| "add_documents_loop index_uid pk (doc # docs) d =
     (case add_one index_uid pk doc d of
        Inl err \<Rightarrow> (Inl err, d)
      | Inr d' \<Rightarrow> add_documents_loop index_uid pk docs d')"

text \<open>\<open>UPDATE indexes SET total_documents = ?, updated_at = ? WHERE uid = ?\<close>\<close>

definition update_stats_row :: "string \<Rightarrow> int \<Rightarrow> timestamp \<Rightarrow> (string \<times> Index) list \<Rightarrow> (string \<times> Index) list" where
  "update_stats_row index_uid n t rows =
     map (\<lambda>(k, row). if k = index_uid then (k, row\<lparr>total_documents := n, updated_at := t\<rparr>)
                      else (k, row)) rows"

definition add_documents ::
  "engine \<Rightarrow> string \<Rightarrow> document list \<Rightarrow> timestamp \<Rightarrow> (error + unit) \<times> engine" where
  "add_documents e index_uid documents now =
     (case map_of (indexes e) index_uid of
        None \<Rightarrow> (Inl (IndexNotFound index_uid), e)
      | Some index \<Rightarrow>
          (case add_documents_loop index_uid (primary_key index) documents (db e) of
             (Inl err, d) \<Rightarrow> (Inl err, e\<lparr>db := rollback (db e) d\<rparr>)
           | (Inr _, d) \<Rightarrow>
               let index' = index\<lparr>total_documents := total_documents index + int (length documents),
                                  updated_at := now\<rparr>;
                   d' = d\<lparr>indexes_tbl :=
                           update_stats_row index_uid (total_documents index') (updated_at index')
                             (indexes_tbl d)\<rparr>
               in (Inr (), \<lparr>indexes = AList.update index_uid index' (indexes e),
                            db = commit (db e) d'\<rparr>)))"

text \<open>\<open>doc.update(partial_doc)\<close>: a key of the document keeps its place, a new key is appended.\<close>

definition dict_update :: "document \<Rightarrow> document \<Rightarrow> document" where
  "dict_update doc partial_doc = fold (\<lambda>(k, v). AList.update k v) partial_doc doc"

definition update_document ::
  "engine \<Rightarrow> string \<Rightarrow> string \<Rightarrow> document \<Rightarrow> timestamp \<Rightarrow> (error + unit) \<times> engine" where
  "update_document e index_uid doc_id partial_doc now =
     (case map_of (indexes e) index_uid of
        None \<Rightarrow> (Inl (IndexNotFound index_uid), e)
      | Some _ \<Rightarrow>
          (case map_of (index_documents (db e)) (index_uid, doc_id) of
             None \<Rightarrow> (Inl (DocumentNotFound doc_id), e)
           | Some doc \<Rightarrow> add_documents e index_uid [dict_update doc partial_doc] now))"

text \<open>
  \<open>delete_document\<close> deletes the rows of the document and of its postings, then lowers the
  counter of the index object in memory and sets its \<open>updated_at\<close>; it does not look whether
  a document was stored.
\<close>

definition delete_document ::
  "engine \<Rightarrow> string \<Rightarrow> string \<Rightarrow> timestamp \<Rightarrow> (error + unit) \<times> engine" where
  "delete_document e index_uid doc_id now =
     (case map_of (indexes e) index_uid of
        None \<Rightarrow> (Inl (IndexNotFound index_uid), e)
      | Some index \<Rightarrow>
          let d = (db e)\<lparr>index_documents :=
                           filter (\<lambda>(k, _). k \<noteq> (index_uid, doc_id)) (index_documents (db e)),
                         term_index :=
                           filter (\<lambda>((iu, _, di, _), _). \<not> (iu = index_uid \<and> di = doc_id))
                             (term_index (db e))\<rparr>;
              index' = index\<lparr>total_documents := max 0 (total_documents index - 1),
                             updated_at := now\<rparr>
          in (Inr (), \<lparr>indexes = AList.update index_uid index' (indexes e),
                       db = commit (db e) d\<rparr>))"

definition get_document :: "engine \<Rightarrow> string \<Rightarrow> string \<Rightarrow> error + document option" where
  "get_document e index_uid doc_id =
     (case map_of (indexes e) index_uid of
        None \<Rightarrow> Inl (IndexNotFound index_uid)
      | Some _ \<Rightarrow> Inr (map_of (index_documents (db e)) (index_uid, doc_id)))"

section \<open>Search\<close>

text \<open>
  Scores are Python floats in the source. They are modelled as real numbers: the model
  computes the formulas exactly and does not round.
\<close>

definition bm25_k1 :: real where
  "bm25_k1 = 1.5"

definition bm25_b :: real where
  "bm25_b = 0.75"

text \<open>\<open>field_weights.get(field, 1.0)\<close>\<close>

definition field_weight :: "string \<Rightarrow> real" where
  "field_weight field =
     (case map_of [(''title'', 3), (''description'', 2), (''body'', 1)] field of
        None \<Rightarrow> 1 | Some w \<Rightarrow> w)"

text \<open>\<open>SELECT COUNT(DISTINCT doc_id) FROM term_index WHERE index_uid = ? AND term = ?\<close>\<close>

definition document_frequency :: "database \<Rightarrow> string \<Rightarrow> string \<Rightarrow> nat" where
  "document_frequency d index_uid t =
     length (remdups (map (\<lambda>((_, _, di, _), _). di)
       (filter (\<lambda>((iu, t', _, _), _). iu = index_uid \<and> t' = t) (term_index d))))"

text \<open>\<open>math.log\<close> raises a \<open>ValueError\<close> outside its domain.\<close>

definition math_log :: "real \<Rightarrow> error + real" where
  "math_log x = (if 0 < x then Inr (ln x) else Inl MathDomainError)"

text \<open>The loop over the fields of the document, for one query term.\<close>

fun score_fields :: "string \<Rightarrow> real \<Rightarrow> string \<Rightarrow> document \<Rightarrow> real \<Rightarrow> real" where
  "score_fields pk idf t [] score = score"
| "score_fields pk idf t ((field, v) # rest) score =
     (if field = pk then score_fields pk idf t rest score
      else
        let terms_in_field = tokenize (py_str v);
            tf = count_list terms_in_field t
        in if tf > 0
           then
             let field_len = length terms_in_field;
                 weight = field_weight field;
                 bm25 = (bm25_k1 + 1) * real tf
                          / (real tf + bm25_k1 * (1 - bm25_b + bm25_b * real field_len))
             in score_fields pk idf t rest (score + weight * idf * bm25)
           else score_fields pk idf t rest score)"

text \<open>The loop over the query terms; \<open>self.indexes[index_uid]\<close> is read in every round.\<close>

fun bm25_terms :: "engine \<Rightarrow> string \<Rightarrow> string list \<Rightarrow> document \<Rightarrow> real \<Rightarrow> error + real" where
  "bm25_terms e index_uid [] doc score = Inr score"
| "bm25_terms e index_uid (t # ts) doc score =
     (let df = document_frequency (db e) index_uid t
      in case map_of (indexes e) index_uid of
           None \<Rightarrow> Inl (KeyError index_uid)
         | Some index \<Rightarrow>
             let n_docs = (if total_documents index = 0 then 1 else total_documents index)
             in (case math_log (real_of_int n_docs / real (max 1 df)) of
                   Inl err \<Rightarrow> Inl err
                 | Inr idf \<Rightarrow>
                     bm25_terms e index_uid ts doc
                       (score_fields (primary_key index) idf t doc score)))"

definition bm25_score :: "engine \<Rightarrow> string \<Rightarrow> string list \<Rightarrow> string \<Rightarrow> document \<Rightarrow> error + real" where
  "bm25_score e index_uid terms doc_id doc = bm25_terms e index_uid terms doc 0"

subsection \<open>Filters\<close>

fun matches_filters :: "document \<Rightarrow> (string \<times> jvalue) list \<Rightarrow> bool" where
  "matches_filters doc [] = True"
| "matches_filters doc ((field, v) # rest) =
     (case map_of doc field of
        None \<Rightarrow> False
      | Some dv \<Rightarrow>
          (case v of
             JList xs \<Rightarrow> if \<not> py_in dv xs then False else matches_filters doc rest
           | _ \<Rightarrow> if \<not> py_eq dv v then False else matches_filters doc rest))"

text \<open>\<open>documents[doc_id]\<close> raises a \<open>KeyError\<close> for a missing key.\<close>

definition getitem :: "(string \<times> 'a) list \<Rightarrow> string \<Rightarrow> error + 'a" where
  "getitem d k = (case map_of d k of None \<Rightarrow> Inl (KeyError k) | Some x \<Rightarrow> Inr x)"

fun apply_filters ::
  "(string \<times> real) list \<Rightarrow> (string \<times> document) list \<Rightarrow> (string \<times> jvalue) list
     \<Rightarrow> (string \<times> real) list \<Rightarrow> error + (string \<times> real) list" where
  "apply_filters [] documents filters filtered = Inr filtered"
| "apply_filters ((doc_id, score) # rest) documents filters filtered =
     (case getitem documents doc_id of
        Inl err \<Rightarrow> Inl err
      | Inr doc \<Rightarrow>
          apply_filters rest documents filters
            (if matches_filters doc filters then AList.update doc_id score filtered else filtered))"

subsection \<open>Facets\<close>

text \<open>\<open>facet_values[key] += 1\<close> on a \<open>defaultdict(int)\<close>\<close>

definition increment :: "string \<Rightarrow> (string \<times> nat) list \<Rightarrow> (string \<times> nat) list" where
  "increment k counts =
     AList.update k (case map_of counts k of None \<Rightarrow> 1 | Some n \<Rightarrow> n + 1) counts"

fun count_facet :: "string \<Rightarrow> document list \<Rightarrow> (string \<times> nat) list \<Rightarrow> (string \<times> nat) list" where
  "count_facet facet [] counts = counts"
| "count_facet facet (doc # docs) counts =
     (case map_of doc facet of
        None \<Rightarrow> count_facet facet docs counts
      | Some v \<Rightarrow> count_facet facet docs (increment (py_str v) counts))"

definition compute_facets ::
  "(string \<times> document) list \<Rightarrow> string list \<Rightarrow> (string \<times> (string \<times> nat) list) list" where
  "compute_facets documents facets' =
     fold (\<lambda>facet result. AList.update facet (count_facet facet (map snd documents) []) result)
       facets' []"

subsection \<open>The query\<close>

record SearchResult =
  index_uid :: string
  query :: string
  hits :: "document list"
  total' :: nat
  facet_distribution :: "(string \<times> (string \<times> nat) list) list"

text \<open>
  The rows of one index, as the dictionary \<open>{r[0]: json.loads(r[1]) for r in rows}\<close>.
\<close>

definition documents_of :: "database \<Rightarrow> string \<Rightarrow> (string \<times> document) list" where
  "documents_of d iu =
     fold (\<lambda>((_, doc_id), doc). AList.update doc_id doc)
       (filter (\<lambda>((iu', _), _). iu' = iu) (index_documents d)) []"

fun score_documents ::
  "engine \<Rightarrow> string \<Rightarrow> string list \<Rightarrow> (string \<times> document) list \<Rightarrow> (string \<times> real) list
     \<Rightarrow> error + (string \<times> real) list" where
  "score_documents e iu terms [] scores = Inr scores"
| "score_documents e iu terms ((doc_id, doc) # rest) scores =
     (case bm25_score e iu terms doc_id doc of
        Inl err \<Rightarrow> Inl err
      | Inr score \<Rightarrow>
          score_documents e iu terms rest
            (if score > 0 then AList.update doc_id score scores else scores))"

text \<open>\<open>xs[start:stop]\<close>: a negative bound counts from the end, and both are clipped.\<close>

definition py_slice :: "'a list \<Rightarrow> int \<Rightarrow> int \<Rightarrow> 'a list" where
  "py_slice xs start stop =
     (let n = int (length xs);
          lo = (if start < 0 then max 0 (n + start) else min n start);
          hi = (if stop < 0 then max 0 (n + stop) else min n stop)
      in take (nat (hi - lo)) (drop (nat lo) xs))"

fun getitems :: "(string \<times> 'a) list \<Rightarrow> string list \<Rightarrow> error + 'a list" where
  "getitems d [] = Inr []"
| "getitems d (k # ks) =
     (case getitem d k of
        Inl err \<Rightarrow> Inl err
      | Inr x \<Rightarrow> (case getitems d ks of Inl err \<Rightarrow> Inl err | Inr xs \<Rightarrow> Inr (x # xs)))"

text \<open>
  \<open>search\<close>. \<open>None\<close> for \<open>filters\<close>, \<open>facets\<close> or \<open>sort\<close> is the empty dictionary or list. The
  stable sort by descending score is \<open>sort_key\<close> on the negated score. The elapsed time of
  the result is left out.
\<close>

definition search ::
  "engine \<Rightarrow> string \<Rightarrow> string \<Rightarrow> (string \<times> jvalue) list \<Rightarrow> string list \<Rightarrow> string list
     \<Rightarrow> int \<Rightarrow> int \<Rightarrow> error + SearchResult" where
  "search e iu q filters facets' sort' limit offset =
     (case map_of (indexes e) iu of
        None \<Rightarrow> Inl (IndexNotFound iu)
      | Some index \<Rightarrow>
          let documents = documents_of (db e) iu;
              terms = tokenize q
          in (case score_documents e iu terms documents [] of
               Inl err \<Rightarrow> Inl err
             | Inr scores \<Rightarrow>
                 (case (if filters \<noteq> [] then apply_filters scores documents filters []
                        else Inr scores) of
                    Inl err \<Rightarrow> Inl err
                  | Inr scores' \<Rightarrow>
                      let sorted_docs = sort_key (\<lambda>x. - snd x) scores';
                          n = length sorted_docs;
                          hits_ids = map fst (py_slice sorted_docs offset (offset + limit))
                      in (case getitems documents hits_ids of
                            Inl err \<Rightarrow> Inl err
                          | Inr hs \<Rightarrow>
                              Inr \<lparr>index_uid = iu, query = q, hits = hs, total' = n,
                                   facet_distribution =
                                     (if facets' \<noteq> [] then compute_facets documents facets'
                                      else [])\<rparr>))))"

section \<open>Field configuration\<close>

text \<open>
  The three setters assign the attribute list of the index object and run
  \<open>UPDATE indexes SET <column> = ? WHERE uid = ?\<close>.
\<close>

definition update_row :: "string \<Rightarrow> (Index \<Rightarrow> Index) \<Rightarrow> (string \<times> Index) list \<Rightarrow> (string \<times> Index) list" where
  "update_row iu f rows = map (\<lambda>(k, row). if k = iu then (k, f row) else (k, row)) rows"

definition set_searchable_attrs :: "engine \<Rightarrow> string \<Rightarrow> string list \<Rightarrow> (error + unit) \<times> engine" where
  "set_searchable_attrs e iu attrs =
     (case map_of (indexes e) iu of
        None \<Rightarrow> (Inl (IndexNotFound iu), e)
      | Some index \<Rightarrow>
          (Inr (),
           \<lparr>indexes = AList.update iu (index\<lparr>searchable_attrs := attrs\<rparr>) (indexes e),
            db = commit (db e)
                   ((db e)\<lparr>indexes_tbl :=
                      update_row iu (\<lambda>row. row\<lparr>searchable_attrs := attrs\<rparr>) (indexes_tbl (db e))\<rparr>)\<rparr>))"

definition set_filterable_attrs :: "engine \<Rightarrow> string \<Rightarrow> string list \<Rightarrow> (error + unit) \<times> engine" where
  "set_filterable_attrs e iu attrs =
     (case map_of (indexes e) iu of
        None \<Rightarrow> (Inl (IndexNotFound iu), e)
      | Some index \<Rightarrow>
          (Inr (),
           \<lparr>indexes = AList.update iu (index\<lparr>filterable_attrs := attrs\<rparr>) (indexes e),
            db = commit (db e)
                   ((db e)\<lparr>indexes_tbl :=
                      update_row iu (\<lambda>row. row\<lparr>filterable_attrs := attrs\<rparr>) (indexes_tbl (db e))\<rparr>)\<rparr>))"

definition set_sortable_attrs :: "engine \<Rightarrow> string \<Rightarrow> string list \<Rightarrow> (error + unit) \<times> engine" where
  "set_sortable_attrs e iu attrs =
     (case map_of (indexes e) iu of
        None \<Rightarrow> (Inl (IndexNotFound iu), e)
      | Some index \<Rightarrow>
          (Inr (),
           \<lparr>indexes = AList.update iu (index\<lparr>sortable_attrs := attrs\<rparr>) (indexes e),
            db = commit (db e)
                   ((db e)\<lparr>indexes_tbl :=
                      update_row iu (\<lambda>row. row\<lparr>sortable_attrs := attrs\<rparr>) (indexes_tbl (db e))\<rparr>)\<rparr>))"

section \<open>Notions of the specification\<close>

text \<open>
  The definitions of this section are not translations of the source: they say in the
  specification's words what the theorems below compare the code with.
\<close>

subsection \<open>Postings of a document\<close>

text \<open>
  The (term, field) pairs that have a posting stored for a document id, and the pairs that
  occur in a document: every term of the tokenization of every field but the primary key.
\<close>

definition stored_postings :: "database \<Rightarrow> string \<Rightarrow> string \<Rightarrow> (string \<times> string) list" where
  "stored_postings d iu doc_id =
     map (\<lambda>((_, t, _, field), _). (t, field))
       (filter (\<lambda>((iu', _, di, _), _). iu' = iu \<and> di = doc_id) (term_index d))"

definition document_postings :: "string \<Rightarrow> document \<Rightarrow> (string \<times> string) list" where
  "document_postings pk doc =
     concat (map (\<lambda>(field, v). if field = pk then []
                               else map (\<lambda>t. (t, field)) (remdups (tokenize (py_str v)))) doc)"

subsection \<open>Ranking\<close>

text \<open>
  \<open>N\<close>: the counter of the index, with 1 for 0. The document frequency of a term: the number
  of distinct documents of the index with a posting for the term, in any field. The inverse
  document frequency, and what one field adds to the score for one query term.
\<close>

definition n_docs_of :: "Index \<Rightarrow> int" where
  "n_docs_of index = (if total_documents index = 0 then 1 else total_documents index)"

definition docs_with_term :: "database \<Rightarrow> string \<Rightarrow> string \<Rightarrow> string set" where
  "docs_with_term d iu t =
     {doc_id. \<exists>field ps. ((iu, t, doc_id, field), ps) \<in> set (term_index d)}"

definition idf_of :: "engine \<Rightarrow> Index \<Rightarrow> string \<Rightarrow> string \<Rightarrow> real" where
  "idf_of e index iu t =
     ln (real_of_int (n_docs_of index) / real (max 1 (card (docs_with_term (db e) iu t))))"

definition contribution :: "string \<Rightarrow> real \<Rightarrow> string \<Rightarrow> string \<times> jvalue \<Rightarrow> real" where
  "contribution pk idf t = (\<lambda>(field, v).
     let tf = count_list (tokenize (py_str v)) t;
         fieldLen = length (tokenize (py_str v))
     in if field \<noteq> pk \<and> tf > 0
        then field_weight field * idf
               * ((1.5 + 1) * real tf / (real tf + 1.5 * (1 - 0.75 + 0.75 * real fieldLen)))
        else 0)"

text \<open>
  The score of a stored document for the terms of a query, the documents that survive scoring
  and filtering, and the surviving documents in the order of the result.
\<close>

definition score_of :: "engine \<Rightarrow> string \<Rightarrow> string list \<Rightarrow> string \<times> document \<Rightarrow> real" where
  "score_of e iu terms =
     (\<lambda>(doc_id, doc). case bm25_score e iu terms doc_id doc of Inr s \<Rightarrow> s | Inl _ \<Rightarrow> 0)"

definition survives ::
  "engine \<Rightarrow> string \<Rightarrow> string list \<Rightarrow> (string \<times> jvalue) list \<Rightarrow> string \<times> document \<Rightarrow> bool" where
  "survives e iu terms filters x \<longleftrightarrow>
     score_of e iu terms x > 0 \<and> matches_filters (snd x) filters"

definition ranking ::
  "engine \<Rightarrow> string \<Rightarrow> string \<Rightarrow> (string \<times> jvalue) list \<Rightarrow> (string \<times> document) list" where
  "ranking e iu q filters =
     sort_key (\<lambda>x. - score_of e iu (tokenize q) x)
       (filter (survives e iu (tokenize q) filters) (documents_of (db e) iu))"

subsection \<open>Filters\<close>

text \<open>
  Strict equality of values is the equality of \<open>jvalue\<close>: a boolean is no integer. Python's
  \<open>==\<close> is strict equality after every boolean has been read as the integer 1 or 0.
\<close>

fun as_int :: "jvalue \<Rightarrow> jvalue" and as_int_list :: "jvalue list \<Rightarrow> jvalue list" where
  "as_int (JBool b) = JInt (if b then 1 else 0)"
| "as_int (JList xs) = JList (as_int_list xs)"
| "as_int JNull = JNull"
| "as_int (JInt i) = JInt i"
| "as_int (JStr s) = JStr s"
| "as_int_list [] = []"
| "as_int_list (x # xs) = as_int x # as_int_list xs"

definition strict_passes :: "document \<Rightarrow> string \<times> jvalue \<Rightarrow> bool" where
  "strict_passes doc = (\<lambda>(field, expected).
     case map_of doc field of
       None \<Rightarrow> False
     | Some dv \<Rightarrow>
         (case expected of
            JList xs \<Rightarrow> list_ex (\<lambda>x. dv = x) xs
          | _ \<Rightarrow> dv = expected))"

definition python_passes :: "document \<Rightarrow> string \<times> jvalue \<Rightarrow> bool" where
  "python_passes doc = (\<lambda>(field, expected).
     case map_of doc field of
       None \<Rightarrow> False
     | Some dv \<Rightarrow>
         (case expected of
            JList xs \<Rightarrow> list_ex (\<lambda>x. as_int dv = as_int x) xs
          | _ \<Rightarrow> as_int dv = as_int expected))"

subsection \<open>Counters\<close>

text \<open>No index object has a negative counter.\<close>

definition counters_ok :: "engine \<Rightarrow> bool" where
  "counters_ok e = list_all (\<lambda>(k, index). 0 \<le> total_documents index) (indexes e)"

subsection \<open>Timestamps\<close>

text \<open>An operation bumps \<open>updated_at\<close> of an index when the timestamp moves forward.\<close>

definition updated_at_bumped :: "engine \<Rightarrow> engine \<Rightarrow> string \<Rightarrow> bool" where
  "updated_at_bumped e e' iu =
     (case (map_of (indexes e) iu, map_of (indexes e') iu) of
        (Some index, Some index') \<Rightarrow> updated_at index < updated_at index'
      | _ \<Rightarrow> False)"

section \<open>Example states\<close>

definition empty_engine :: engine where
  "empty_engine =
     \<lparr>indexes = [], db = \<lparr>indexes_tbl = [], index_documents = [], term_index = []\<rparr>\<rparr>"

definition books_index :: Index where
  "books_index =
     \<lparr>uid = ''books'', name = ''books'', primary_key = ''id'', created_at = 100,
      updated_at = 100, total_documents = 0, facets = [],
      ranking_rules = default_ranking_rules, searchable_attrs = [], filterable_attrs = [],
      sortable_attrs = []\<rparr>"

text \<open>An engine with the empty index \<open>books\<close>, created at time 100.\<close>

definition books_engine :: engine where
  "books_engine = snd (create_index empty_engine ''books'' ''id'' None 100)"

definition doc1 :: document where
  "doc1 = [(''id'', JStr ''1''), (''title'', JStr ''dune world'')]"

definition doc2 :: document where
  "doc2 = [(''id'', JStr ''2''), (''title'', JStr ''dune sequel'')]"

definition doc3 :: document where
  "doc3 = [(''id'', JStr ''3''), (''title'', JStr ''unrelated text'')]"

definition nokey :: document where
  "nokey = [(''title'', JStr ''no key here'')]"

definition doc1_v2 :: document where
  "doc1_v2 = [(''id'', JStr ''1''), (''title'', JStr ''arrakis'')]"

text \<open>The three documents of the specification's scenario, added at time 101.\<close>

definition library_engine :: engine where
  "library_engine = snd (add_documents books_engine ''books'' [doc1, doc2, doc3] 101)"

text \<open>Document 1 written, then written again with another title.\<close>

definition rewritten_engine :: engine where
  "rewritten_engine =
     snd (add_documents (snd (add_documents books_engine ''books'' [doc1] 101))
            ''books'' [doc1_v2] 102)"

text \<open>The library after two deletions of a document id that was never stored.\<close>

definition shrunk_engine :: engine where
  "shrunk_engine =
     snd (delete_document (snd (delete_document library_engine ''books'' ''9'' 102))
            ''books'' ''9'' 103)"

text \<open>The index objects of the library and of the library after the two deletions.\<close>

definition library_index :: Index where
  "library_index = books_index\<lparr>total_documents := 3, updated_at := 101\<rparr>"

definition shrunk_index :: Index where
  "shrunk_index = books_index\<lparr>total_documents := 1, updated_at := 103\<rparr>"

text \<open>
  The score of a document whose title has two tokens, one of them the query term, in the
  library: weight 3, \<open>N = 3\<close>, \<open>df = 2\<close>, \<open>tf = 1\<close>.
\<close>

definition dune_score :: real where
  "dune_score = 3 * ln (3 / 2) * (2.5 / (1 + 1.5 * (0.25 + 0.75 * 2)))"

text \<open>A document with a string, an integer and a boolean field.\<close>

definition dune_record :: document where
  "dune_record =
     [(''id'', JStr ''1''), (''genre'', JStr ''scifi''), (''year'', JInt 1965),
      (''available'', JBool True)]"

section \<open>Ingestion of a batch with an invalid document\<close>

lemma str_nat_not_empty: "str_nat n \<noteq> []"
  by (subst str_nat.simps) simp

lemma str_int_not_empty: "str_int i \<noteq> []"
  by (simp add: str_int_def str_nat_not_empty)

lemma py_str_empty_iff: "py_str v = [] \<longleftrightarrow> v = JStr []"
  by (cases v) (simp_all add: str_int_not_empty)

text \<open>
  The document id is empty exactly when the primary-key field is missing or holds the
  empty string; every other value has a non-empty string form.
\<close>

lemma doc_id_of_empty_iff:
  "doc_id_of pk doc = [] \<longleftrightarrow> map_of doc pk = None \<or> map_of doc pk = Some (JStr [])"
  by (simp add: doc_id_of_def py_str_empty_iff split: option.split)

lemma add_one_invalid:
  "doc_id_of pk doc = [] \<Longrightarrow> add_one iu pk doc d = Inl (MissingPrimaryKey pk)"
  by (simp add: add_one_def)

lemma add_one_valid: "doc_id_of pk doc \<noteq> [] \<Longrightarrow> \<exists>d'. add_one iu pk doc d = Inr d'"
  by (simp add: add_one_def Let_def)

lemma add_documents_loop_abort:
  "list_all (\<lambda>doc. doc_id_of pk doc \<noteq> []) pre \<Longrightarrow> doc_id_of pk bad = [] \<Longrightarrow>
   add_documents_loop iu pk (pre @ bad # rest) d =
     (Inl (MissingPrimaryKey pk), snd (add_documents_loop iu pk pre d))"
proof (induction pre arbitrary: d)
  case Nil
  then show ?case by (simp add: add_one_invalid)
next
  case (Cons doc pre)
  then obtain d' where "add_one iu pk doc d = Inr d'"
    using add_one_valid [of pk doc iu d] by auto
  with Cons show ?case by simp
qed

lemma add_documents_loop_ok:
  "list_all (\<lambda>doc. doc_id_of pk doc \<noteq> []) docs \<Longrightarrow>
   fst (add_documents_loop iu pk docs d) = Inr ()"
proof (induction docs arbitrary: d)
  case Nil
  then show ?case by simp
next
  case (Cons doc docs)
  then obtain d' where "add_one iu pk doc d = Inr d'"
    using add_one_valid [of pk doc iu d] by auto
  with Cons show ?case by simp
qed

text \<open>
  Claim C1, as the specification states it: when a document of the batch has no usable
  primary key, \<open>add_documents\<close> raises, and the documents written earlier in the batch stay
  stored. The second half fails. In the batch \<open>[doc1, nokey, doc3]\<close> the loop has written
  \<open>doc1\<close> when \<open>nokey\<close> raises, but the write is part of the open transaction, which is rolled
  back: after the call document 1 is not stored.
\<close>

theorem add_documents_keeps_earlier_writes_counterexample:
  "fst (add_documents books_engine ''books'' [doc1, nokey, doc3] 101)
     = Inl (MissingPrimaryKey ''id'')
   \<and> map_of (index_documents
               (snd (add_documents_loop ''books'' ''id'' [doc1, nokey, doc3] (db books_engine))))
        (''books'', ''1'') = Some doc1
   \<and> get_document (snd (add_documents books_engine ''books'' [doc1, nokey, doc3] 101))
        ''books'' ''1'' = Inr None"
  by code_simp

text \<open>
  Claim C1, amended: for a batch \<open>pre @ bad # rest\<close> on an existing index, where the
  documents of \<open>pre\<close> have a non-empty document id and \<open>bad\<close> has none (its primary-key field
  is missing or is the empty string), \<open>add_documents\<close> raises the error of the invalid
  document and leaves the engine exactly as it was before the call: stored documents,
  postings and counters. The loop stops at \<open>bad\<close>: its uncommitted writes are those of \<open>pre\<close>
  alone, and \<open>rest\<close> is never processed.
\<close>

theorem add_documents_invalid_rolls_back:
  assumes "map_of (indexes e) iu = Some index"
    and "list_all (\<lambda>doc. doc_id_of (primary_key index) doc \<noteq> []) pre"
    and "doc_id_of (primary_key index) bad = []"
  shows "add_documents e iu (pre @ bad # rest) now
           = (Inl (MissingPrimaryKey (primary_key index)), e)
       \<and> add_documents_loop iu (primary_key index) (pre @ bad # rest) (db e)
           = (Inl (MissingPrimaryKey (primary_key index)),
              snd (add_documents_loop iu (primary_key index) pre (db e)))"
  using assms add_documents_loop_abort [of "primary_key index" pre bad iu rest "db e"]
  by (simp add: add_documents_def rollback_def)

lemma books_engine_index: "map_of (indexes books_engine) ''books'' = Some books_index"
  by code_simp

lemma primary_key_books_index: "primary_key books_index = ''id''"
  by (simp add: books_index_def)

text \<open>The amended claim C1 at the batch \<open>[doc1, nokey, doc3]\<close> on the index \<open>books\<close>.\<close>

theorem add_documents_invalid_rolls_back_witness:
  "map_of (indexes books_engine) ''books'' = Some books_index
   \<and> list_all (\<lambda>doc. doc_id_of (primary_key books_index) doc \<noteq> []) [doc1]
   \<and> doc_id_of (primary_key books_index) nokey = []
   \<and> add_documents books_engine ''books'' ([doc1] @ nokey # [doc3]) 101
       = (Inl (MissingPrimaryKey (primary_key books_index)), books_engine)
   \<and> add_documents_loop ''books'' (primary_key books_index) ([doc1] @ nokey # [doc3])
         (db books_engine)
       = (Inl (MissingPrimaryKey (primary_key books_index)),
          snd (add_documents_loop ''books'' (primary_key books_index) [doc1] (db books_engine)))"
proof -
  have valid: "list_all (\<lambda>doc. doc_id_of (primary_key books_index) doc \<noteq> []) [doc1]"
    by (simp add: primary_key_books_index doc_id_of_def doc1_def)
  have invalid: "doc_id_of (primary_key books_index) nokey = []"
    by (simp add: primary_key_books_index doc_id_of_def nokey_def)
  show ?thesis
    using add_documents_invalid_rolls_back
            [OF books_engine_index valid invalid, of "[doc3]" 101]
      books_engine_index valid invalid
    by blast
qed

section \<open>Postings after a rewrite\<close>

text \<open>
  Claim C2 says that after a write the postings stored for a document id are those of the
  document now stored. The code does not keep this: \<open>add_documents\<close> replaces the postings
  whose key it writes again and deletes none. At the failing input, document 1 is written
  with the title \<open>dune world\<close> and then with the title \<open>arrakis\<close>: the stored document has the
  single posting (arrakis, title), the term index still holds (dune, title) and
  (world, title) for it, and the document frequency of \<open>dune\<close> is 1 in an index where no
  document contains the word.
\<close>

theorem stale_postings_persist:
  "get_document rewritten_engine ''books'' ''1'' = Inr (Some doc1_v2)
   \<and> document_postings ''id'' doc1_v2 = [(''arrakis'', ''title'')]
   \<and> stored_postings (db rewritten_engine) ''books'' ''1''
       = [(''dune'', ''title''), (''world'', ''title''), (''arrakis'', ''title'')]
   \<and> set (stored_postings (db rewritten_engine) ''books'' ''1'')
       \<noteq> set (document_postings ''id'' doc1_v2)
   \<and> document_frequency (db rewritten_engine) ''books'' ''dune'' = 1"
  by code_simp

section \<open>The counter of an index\<close>

lemma map_of_update_same: "map_of (AList.update k v al) k = Some v"
  by (simp add: update_conv')

lemma add_documents_counter:
  assumes "map_of (indexes e) iu = Some index"
    and "fst (add_documents e iu docs now) = Inr ()"
  shows "map_of (indexes (snd (add_documents e iu docs now))) iu =
         Some (index\<lparr>total_documents := total_documents index + int (length docs),
                      updated_at := now\<rparr>)"
  using assms
  by (auto simp: add_documents_def Let_def map_of_update_same split: prod.splits sum.splits)

lemma delete_document_index:
  assumes "map_of (indexes e) iu = Some index"
  shows "fst (delete_document e iu doc_id now) = Inr ()"
    and "map_of (indexes (snd (delete_document e iu doc_id now))) iu =
         Some (index\<lparr>total_documents := max 0 (total_documents index - 1),
                      updated_at := now\<rparr>)"
  using assms by (simp_all add: delete_document_def Let_def map_of_update_same)

subsection \<open>Counters are never negative\<close>

lemma list_all_update:
  "list_all P al \<Longrightarrow> P (k, v) \<Longrightarrow> list_all P (AList.update k v al)"
  by (induction al) auto

lemma counters_ok_lookup:
  "counters_ok e \<Longrightarrow> map_of (indexes e) iu = Some index \<Longrightarrow> 0 \<le> total_documents index"
  unfolding counters_ok_def list_all_iff by (auto dest: map_of_SomeD)

lemma counters_ok_empty: "counters_ok empty_engine"
  by (simp add: counters_ok_def empty_engine_def)

lemma counters_ok_create_index:
  "counters_ok e \<Longrightarrow> counters_ok (snd (create_index e iu pk name_opt now))"
  by (auto simp: counters_ok_def create_index_def Let_def rollback_def
      intro!: list_all_update split: option.splits)

lemma counters_ok_add_documents:
  assumes "counters_ok e"
  shows "counters_ok (snd (add_documents e iu docs now))"
proof (cases "map_of (indexes e) iu")
  case None
  then show ?thesis using assms by (simp add: add_documents_def)
next
  case (Some index)
  have "0 \<le> total_documents index" using assms Some by (rule counters_ok_lookup)
  then show ?thesis
    using assms Some
    by (auto simp: counters_ok_def add_documents_def Let_def
        intro!: list_all_update split: prod.splits sum.splits)
qed

lemma counters_ok_update_document:
  "counters_ok e \<Longrightarrow> counters_ok (snd (update_document e iu doc_id partial_doc now))"
  by (auto simp: update_document_def counters_ok_add_documents split: option.splits)

lemma counters_ok_delete_document:
  "counters_ok e \<Longrightarrow> counters_ok (snd (delete_document e iu doc_id now))"
  by (auto simp: counters_ok_def delete_document_def Let_def
      intro!: list_all_update split: option.splits)

subsection \<open>What the counter counts\<close>

text \<open>
  Claim C4: on an existing index, a successful \<open>add_documents\<close> raises the counter by the
  size of the batch, whether or not the ids were stored before, and \<open>delete_document\<close>
  succeeds and lowers it by one, not below zero. The counter is not the number of stored
  documents: after document 1 has been written twice it is 2, with one document stored.
\<close>

theorem total_documents_counter:
  assumes "map_of (indexes e) iu = Some index"
    and "fst (add_documents e iu docs now) = Inr ()"
  shows "map_option total_documents (map_of (indexes (snd (add_documents e iu docs now))) iu)
           = Some (total_documents index + int (length docs))
       \<and> fst (delete_document e iu doc_id now') = Inr ()
       \<and> map_option total_documents
            (map_of (indexes (snd (delete_document e iu doc_id now'))) iu)
           = Some (max 0 (total_documents index - 1))
       \<and> map_option total_documents (map_of (indexes rewritten_engine) ''books'') = Some 2
       \<and> length (documents_of (db rewritten_engine) ''books'') = 1"
proof -
  have "map_option total_documents (map_of (indexes rewritten_engine) ''books'') = Some 2"
    by code_simp
  moreover have "length (documents_of (db rewritten_engine) ''books'') = 1"
    by code_simp
  ultimately show ?thesis
    using add_documents_counter [OF assms] delete_document_index [OF assms(1), of doc_id now']
    by simp
qed

lemma books_add_ok:
  "fst (add_documents books_engine ''books'' [doc1, doc2, doc3] 101) = Inr ()"
  by code_simp

text \<open>Claim C4 on the empty index \<open>books\<close>: three documents added, and one deletion.\<close>

theorem total_documents_counter_witness:
  "map_of (indexes books_engine) ''books'' = Some books_index
   \<and> fst (add_documents books_engine ''books'' [doc1, doc2, doc3] 101) = Inr ()
   \<and> map_option total_documents
        (map_of (indexes (snd (add_documents books_engine ''books'' [doc1, doc2, doc3] 101)))
           ''books'')
       = Some 3
   \<and> fst (delete_document books_engine ''books'' ''1'' 102) = Inr ()
   \<and> map_option total_documents
        (map_of (indexes (snd (delete_document books_engine ''books'' ''1'' 102))) ''books'')
       = Some 0"
proof -
  have "total_documents books_index = 0" by (simp add: books_index_def)
  then show ?thesis
    using total_documents_counter [OF books_engine_index books_add_ok, of "''1''" 102]
      books_engine_index books_add_ok
    by simp
qed

subsection \<open>Deleting a document that is not stored\<close>

lemma filter_absent_key:
  "map_of al k = None \<Longrightarrow> filter (\<lambda>(k', _). k' \<noteq> k) al = al"
  by (induction al) (auto split: if_splits)

text \<open>
  Claim C9: on an existing index, \<open>delete_document\<close> for an id with no stored document
  raises nothing, lowers the counter by one, not below zero, and sets \<open>updated_at\<close> to the
  time of the call. The stored documents stay as they were.
\<close>

theorem delete_absent_document:
  assumes "map_of (indexes e) iu = Some index"
    and "get_document e iu doc_id = Inr None"
  shows "fst (delete_document e iu doc_id now) = Inr ()
       \<and> map_of (indexes (snd (delete_document e iu doc_id now))) iu
           = Some (index\<lparr>total_documents := max 0 (total_documents index - 1),
                        updated_at := now\<rparr>)
       \<and> index_documents (db (snd (delete_document e iu doc_id now)))
           = index_documents (db e)"
proof -
  have absent: "map_of (index_documents (db e)) (iu, doc_id) = None"
    using assms by (simp add: get_document_def)
  have "index_documents (db (snd (delete_document e iu doc_id now))) = index_documents (db e)"
    using assms(1) filter_absent_key [OF absent]
    by (simp add: delete_document_def Let_def commit_def)
  then show ?thesis
    using delete_document_index [OF assms(1), of doc_id now] by simp
qed

lemma library_engine_index: "map_of (indexes library_engine) ''books'' = Some library_index"
  unfolding library_index_def by code_simp

text \<open>Claim C9 in the library, which has no document 9: the counter goes from 3 to 2.\<close>

theorem delete_absent_document_witness:
  "map_of (indexes library_engine) ''books'' = Some library_index
   \<and> get_document library_engine ''books'' ''9'' = Inr None
   \<and> fst (delete_document library_engine ''books'' ''9'' 102) = Inr ()
   \<and> map_of (indexes (snd (delete_document library_engine ''books'' ''9'' 102))) ''books''
       = Some (library_index\<lparr>total_documents := 2, updated_at := 102\<rparr>)
   \<and> index_documents (db (snd (delete_document library_engine ''books'' ''9'' 102)))
       = index_documents (db library_engine)"
proof -
  have g: "get_document library_engine ''books'' ''9'' = Inr None" by code_simp
  have "max 0 (total_documents library_index - 1) = 2"
    by (simp add: library_index_def)
  then show ?thesis
    using delete_absent_document [OF library_engine_index g, of 102] library_engine_index g
    by simp
qed

section \<open>Field configuration: the setters\<close>

lemma map_of_update_row:
  "map_of (update_row iu f rows) iu = map_option f (map_of rows iu)"
  by (induction rows) (auto simp: update_row_def)

text \<open>
  Claim C5, as the specification states it: each setter replaces its attribute list and
  bumps \<open>updated_at\<close>. No setter reads the clock or assigns \<open>updated_at\<close>: on the index \<open>books\<close>
  each of the three succeeds and the timestamp has not moved, while \<open>add_documents\<close> on the
  same index moves it.
\<close>

theorem setters_bump_updated_at_counterexample:
  "fst (set_searchable_attrs books_engine ''books'' [''title'']) = Inr ()
   \<and> \<not> updated_at_bumped books_engine
         (snd (set_searchable_attrs books_engine ''books'' [''title''])) ''books''
   \<and> fst (set_filterable_attrs books_engine ''books'' [''title'']) = Inr ()
   \<and> \<not> updated_at_bumped books_engine
         (snd (set_filterable_attrs books_engine ''books'' [''title''])) ''books''
   \<and> fst (set_sortable_attrs books_engine ''books'' [''title'']) = Inr ()
   \<and> \<not> updated_at_bumped books_engine
         (snd (set_sortable_attrs books_engine ''books'' [''title''])) ''books''
   \<and> updated_at_bumped books_engine
         (snd (add_documents books_engine ''books'' [doc1] 101)) ''books''"
  by code_simp

text \<open>
  Claim C5, amended: for an existing index each of the three setters succeeds and replaces
  its attribute list by the given one, in the index object and in the row of the table
  \<open>indexes\<close>, and leaves every other field of the index as it was, \<open>updated_at\<close> included;
  for an absent uid each fails with the index-not-found error and changes nothing.
\<close>

theorem setters_replace_attrs:
  assumes "map_of (indexes e) iu = Some index"
    and "map_of (indexes e) iu' = None"
  shows "fst (set_searchable_attrs e iu attrs) = Inr ()
       \<and> map_of (indexes (snd (set_searchable_attrs e iu attrs))) iu
           = Some (index\<lparr>searchable_attrs := attrs\<rparr>)
       \<and> map_of (indexes_tbl (db (snd (set_searchable_attrs e iu attrs)))) iu
           = map_option (\<lambda>row. row\<lparr>searchable_attrs := attrs\<rparr>) (map_of (indexes_tbl (db e)) iu)
       \<and> set_searchable_attrs e iu' attrs = (Inl (IndexNotFound iu'), e)
       \<and> fst (set_filterable_attrs e iu attrs) = Inr ()
       \<and> map_of (indexes (snd (set_filterable_attrs e iu attrs))) iu
           = Some (index\<lparr>filterable_attrs := attrs\<rparr>)
       \<and> map_of (indexes_tbl (db (snd (set_filterable_attrs e iu attrs)))) iu
           = map_option (\<lambda>row. row\<lparr>filterable_attrs := attrs\<rparr>) (map_of (indexes_tbl (db e)) iu)
       \<and> set_filterable_attrs e iu' attrs = (Inl (IndexNotFound iu'), e)
       \<and> fst (set_sortable_attrs e iu attrs) = Inr ()
       \<and> map_of (indexes (snd (set_sortable_attrs e iu attrs))) iu
           = Some (index\<lparr>sortable_attrs := attrs\<rparr>)
       \<and> map_of (indexes_tbl (db (snd (set_sortable_attrs e iu attrs)))) iu
           = map_option (\<lambda>row. row\<lparr>sortable_attrs := attrs\<rparr>) (map_of (indexes_tbl (db e)) iu)
       \<and> set_sortable_attrs e iu' attrs = (Inl (IndexNotFound iu'), e)
       \<and> \<not> updated_at_bumped e (snd (set_searchable_attrs e iu attrs)) iu
       \<and> \<not> updated_at_bumped e (snd (set_filterable_attrs e iu attrs)) iu
       \<and> \<not> updated_at_bumped e (snd (set_sortable_attrs e iu attrs)) iu"
  using assms
  by (simp add: set_searchable_attrs_def set_filterable_attrs_def set_sortable_attrs_def
      map_of_update_same map_of_update_row commit_def updated_at_bumped_def)

lemma books_engine_no_films: "map_of (indexes books_engine) ''films'' = None"
  by code_simp

text \<open>The amended claim C5 on the index \<open>books\<close> and the absent uid \<open>films\<close>.\<close>

theorem setters_replace_attrs_witness:
  "map_of (indexes books_engine) ''books'' = Some books_index
   \<and> map_of (indexes books_engine) ''films'' = None
   \<and> map_of (indexes (snd (set_searchable_attrs books_engine ''books'' [''title''])))
        ''books''
       = Some (books_index\<lparr>searchable_attrs := [''title'']\<rparr>)
   \<and> map_of (indexes (snd (set_filterable_attrs books_engine ''books'' [''title''])))
        ''books''
       = Some (books_index\<lparr>filterable_attrs := [''title'']\<rparr>)
   \<and> map_of (indexes (snd (set_sortable_attrs books_engine ''books'' [''title''])))
        ''books''
       = Some (books_index\<lparr>sortable_attrs := [''title'']\<rparr>)
   \<and> set_searchable_attrs books_engine ''films'' [''title'']
       = (Inl (IndexNotFound ''films''), books_engine)
   \<and> set_filterable_attrs books_engine ''films'' [''title'']
       = (Inl (IndexNotFound ''films''), books_engine)
   \<and> set_sortable_attrs books_engine ''films'' [''title'']
       = (Inl (IndexNotFound ''films''), books_engine)"
  using setters_replace_attrs [OF books_engine_index books_engine_no_films, of "[''title'']"]
    books_engine_index books_engine_no_films
  by blast

section \<open>Scoring\<close>

text \<open>The SQL count of distinct document ids is the number of documents with the term.\<close>

lemma document_frequency_card:
  "document_frequency d iu t = card (docs_with_term d iu t)"
proof -
  have "set (map (\<lambda>((_, _, di, _), _). di)
       (filter (\<lambda>((iu', t', _, _), _). iu' = iu \<and> t' = t) (term_index d))) = docs_with_term d iu t"
    by (force simp: docs_with_term_def)
  then show ?thesis
    unfolding document_frequency_def by (metis length_remdups_card_conv)
qed

text \<open>The two loops of \<open>_bm25_score\<close> add up the contributions of the fields, term by term.\<close>

lemma score_fields_sum:
  "score_fields pk idf t doc score = score + sum_list (map (contribution pk idf t) doc)"
  by (induction pk idf t doc score rule: score_fields.induct)
     (simp_all add: contribution_def Let_def bm25_k1_def bm25_b_def)

lemma math_log_idf:
  assumes "0 \<le> total_documents index"
  shows "math_log (real_of_int (n_docs_of index) / real (max 1 df)) =
         Inr (ln (real_of_int (n_docs_of index) / real (max 1 df)))"
proof -
  have "0 < n_docs_of index" using assms by (simp add: n_docs_of_def)
  then have "0 < real_of_int (n_docs_of index) / real (max 1 df)" by simp
  then show ?thesis by (simp add: math_log_def)
qed

lemma bm25_terms_sum:
  assumes "map_of (indexes e) iu = Some index" and "0 \<le> total_documents index"
  shows "bm25_terms e iu ts doc score =
     Inr (score + (\<Sum>t\<leftarrow>ts. \<Sum>fv\<leftarrow>doc. contribution (primary_key index) (idf_of e index iu t) t fv))"
proof (induction ts arbitrary: score)
  case Nil
  then show ?case by simp
next
  case (Cons t ts)
  have "math_log (real_of_int (n_docs_of index) / real (max 1 (document_frequency (db e) iu t)))
        = Inr (idf_of e index iu t)"
    using math_log_idf [OF assms(2)] by (simp add: idf_of_def document_frequency_card)
  then show ?case
    using assms(1) Cons.IH
    by (simp add: Let_def n_docs_of_def [symmetric] score_fields_sum add.assoc)
qed

lemma field_weight_cases:
  "field_weight f = (if f = ''title'' then 3 else if f = ''description'' then 2 else 1)"
  by (simp add: field_weight_def)

lemma idf_negative:
  assumes "0 \<le> total_documents index"
    and "n_docs_of index < int (card (docs_with_term (db e) iu t))"
  shows "idf_of e index iu t < 0"
proof -
  let ?df = "card (docs_with_term (db e) iu t)"
  have n: "0 < n_docs_of index" using assms(1) by (simp add: n_docs_of_def)
  have "real_of_int (n_docs_of index) < real ?df" using assms(2) by linarith
  moreover have "max 1 ?df = ?df" using assms(2) n by simp
  ultimately have "real_of_int (n_docs_of index) / real (max 1 ?df) < 1"
    using n by simp
  moreover have "0 < real_of_int (n_docs_of index) / real (max 1 ?df)" using n by simp
  ultimately show ?thesis unfolding idf_of_def by simp
qed

text \<open>
  Claim C3: in an engine whose counters are not negative (every state reached from the
  empty engine by the operations of the model), the score of a document is the sum, over the query terms in
  order and with repetitions, over the fields of the document, of the contribution
  \<open>weight * idf * (k1 + 1) * tf / (tf + k1 * (1 - b + b * fieldLen))\<close> of every field other
  than the primary key in which the term occurs, with \<open>k1 = 1.5\<close>, \<open>b = 0.75\<close>,
  \<open>idf = ln (N / max 1 df)\<close>, \<open>N\<close> the counter with 1 for 0, \<open>df\<close> the number of distinct
  documents with a posting for the term, and the weights 3, 2 and 1. The \<open>idf\<close> is not
  clamped: it is negative when \<open>df\<close> exceeds \<open>N\<close>. Scores are real numbers here, floats in
  the source.
\<close>

theorem bm25_score_formula:
  assumes "map_of (indexes e) iu = Some index" and "counters_ok e"
  shows "bm25_score e iu terms doc_id doc =
           Inr (\<Sum>t\<leftarrow>terms. \<Sum>fv\<leftarrow>doc.
                  contribution (primary_key index) (idf_of e index iu t) t fv)
       \<and> (n_docs_of index < int (card (docs_with_term (db e) iu t))
            \<longrightarrow> idf_of e index iu t < 0)
       \<and> field_weight f = (if f = ''title'' then 3 else if f = ''description'' then 2 else 1)"
proof -
  have nonneg: "0 \<le> total_documents index"
    using assms(2) assms(1) by (rule counters_ok_lookup)
  show ?thesis
    using bm25_terms_sum [OF assms(1) nonneg, of terms doc 0]
      idf_negative [OF nonneg, of e iu t]
    by (simp add: bm25_score_def field_weight_cases)
qed

lemma shrunk_engine_index: "map_of (indexes shrunk_engine) ''books'' = Some shrunk_index"
  unfolding shrunk_index_def by code_simp

lemma shrunk_engine_counters_ok: "counters_ok shrunk_engine"
  unfolding shrunk_engine_def library_engine_def books_engine_def
  by (intro counters_ok_delete_document counters_ok_add_documents counters_ok_create_index
      counters_ok_empty)

lemma shrunk_df_dune: "document_frequency (db shrunk_engine) ''books'' ''dune'' = 2"
  by code_simp

lemma tokenize_dune_world: "tokenize ''dune world'' = [''dune'', ''world'']"
  by code_simp

lemma tokenize_dune_sequel: "tokenize ''dune sequel'' = [''dune'', ''sequel'']"
  by code_simp

lemma tokenize_unrelated_text: "tokenize ''unrelated text'' = [''unrelated'', ''text'']"
  by code_simp

lemma tokenize_1: "tokenize ''1'' = []"
  by code_simp

text \<open>
  Claim C3 in the library after two deletions of an absent document: the counter is 1, two
  documents have the term \<open>dune\<close>, and the \<open>idf\<close> is \<open>ln (1 / 2)\<close>, which is negative.
\<close>

theorem bm25_score_formula_witness:
  "map_of (indexes shrunk_engine) ''books'' = Some shrunk_index
   \<and> counters_ok shrunk_engine
   \<and> n_docs_of shrunk_index < int (card (docs_with_term (db shrunk_engine) ''books'' ''dune''))
   \<and> bm25_score shrunk_engine ''books'' [''dune''] ''1'' doc1
       = Inr (3 * ln (1 / 2) * (2.5 / (1 + 1.5 * (0.25 + 0.75 * 2))))
   \<and> idf_of shrunk_engine shrunk_index ''books'' ''dune'' = ln (1 / 2)
   \<and> idf_of shrunk_engine shrunk_index ''books'' ''dune'' < 0
   \<and> field_weight ''title'' = 3"
proof -
  have less: "n_docs_of shrunk_index < int (card (docs_with_term (db shrunk_engine) ''books'' ''dune''))"
    using shrunk_df_dune
    by (simp add: document_frequency_card [symmetric] n_docs_of_def shrunk_index_def)
  have idf: "idf_of shrunk_engine shrunk_index ''books'' ''dune'' = ln (1 / 2)"
    using shrunk_df_dune
    by (simp add: idf_of_def document_frequency_card [symmetric] n_docs_of_def shrunk_index_def)
  have pk: "primary_key shrunk_index = ''id''"
    by (simp add: shrunk_index_def books_index_def)
  have sum: "(\<Sum>t\<leftarrow>[''dune'']. \<Sum>fv\<leftarrow>doc1.
               contribution (primary_key shrunk_index)
                 (idf_of shrunk_engine shrunk_index ''books'' t) t fv)
             = 3 * ln (1 / 2) * (2.5 / (1 + 1.5 * (0.25 + 0.75 * 2)))"
    by (simp add: idf pk contribution_def doc1_def tokenize_dune_world tokenize_1 field_weight_def)
  have th: "bm25_score shrunk_engine ''books'' [''dune''] ''1'' doc1 =
           Inr (\<Sum>t\<leftarrow>[''dune'']. \<Sum>fv\<leftarrow>doc1.
               contribution (primary_key shrunk_index)
                 (idf_of shrunk_engine shrunk_index ''books'' t) t fv)
       \<and> (n_docs_of shrunk_index < int (card (docs_with_term (db shrunk_engine) ''books'' ''dune''))
            \<longrightarrow> idf_of shrunk_engine shrunk_index ''books'' ''dune'' < 0)
       \<and> field_weight ''title'' =
            (if ''title'' = ''title'' then 3 else if ''title'' = ''description'' then 2 else 1)"
    by (rule bm25_score_formula [OF shrunk_engine_index shrunk_engine_counters_ok])
  have neg: "idf_of shrunk_engine shrunk_index ''books'' ''dune'' < 0"
    using th less by blast
  have w: "field_weight ''title'' = 3" using th by simp
  have sc: "bm25_score shrunk_engine ''books'' [''dune''] ''1'' doc1
       = Inr (3 * ln (1 / 2) * (2.5 / (1 + 1.5 * (0.25 + 0.75 * 2))))"
    using th sum by simp
  show ?thesis
    using shrunk_engine_index shrunk_engine_counters_ok less sc idf neg w by blast
qed

section \<open>Search results\<close>

subsection \<open>Dictionaries with distinct keys\<close>

lemma update_fresh: "k \<notin> fst ` set al \<Longrightarrow> AList.update k v al = al @ [(k, v)]"
  by (induction al) auto

lemma fold_update_distinct:
  "distinct (map fst acc) \<Longrightarrow>
   distinct (map fst (fold (\<lambda>((a, k), v). AList.update k v) rows acc))"
  by (induction rows arbitrary: acc) (auto simp: distinct_update split: prod.splits)

lemma documents_of_distinct: "distinct (map fst (documents_of d iu))"
  unfolding documents_of_def
  using fold_update_distinct [of "[]"] by (simp add: case_prod_unfold)

lemma getitem_distinct:
  "distinct (map fst docs) \<Longrightarrow> (k, x) \<in> set docs \<Longrightarrow> getitem docs k = Inr x"
  by (simp add: getitem_def)

lemma getitems_map:
  "distinct (map fst docs) \<Longrightarrow> set xs \<subseteq> set docs \<Longrightarrow> getitems docs (map fst xs) = Inr (map snd xs)"
proof (induction xs)
  case Nil
  then show ?case by simp
next
  case (Cons p xs)
  then have "getitem docs (fst p) = Inr (snd p)"
    using getitem_distinct [of docs "fst p" "snd p"] by simp
  with Cons show ?case by simp
qed

subsection \<open>The stages of the query\<close>

text \<open>
  Scoring keeps the documents with a positive score, in the order of the rows; filtering
  keeps those that match; sorting and slicing commute with pairing an id with its score.
\<close>

lemma score_documents_scored:
  assumes "score_documents e iu terms docs acc = Inr scores"
    and "distinct (map fst docs)"
    and "fst ` set acc \<inter> fst ` set docs = {}"
  shows "scores = acc @ map (\<lambda>x. (fst x, score_of e iu terms x)) (filter (\<lambda>x. score_of e iu terms x > 0) docs)"
  using assms
proof (induction docs arbitrary: acc)
  case Nil
  then show ?case by simp
next
  case (Cons p docs)
  obtain doc_id doc where p: "p = (doc_id, doc)" by (cases p)
  from Cons.prems(1) p obtain s where s: "bm25_score e iu terms doc_id doc = Inr s"
    by (auto split: sum.splits)
  let ?acc = "if s > 0 then AList.update doc_id s acc else acc"
  have fresh: "doc_id \<notin> fst ` set acc" using Cons.prems(3) p by auto
  have acc': "?acc = (if s > 0 then acc @ [(doc_id, s)] else acc)"
    using fresh by (simp add: update_fresh)
  have rec: "score_documents e iu terms docs ?acc = Inr scores"
    using Cons.prems(1) p s by simp
  have disj: "fst ` set ?acc \<inter> fst ` set docs = {}"
    using Cons.prems(2,3) p by (auto simp: acc')
  have "scores = ?acc @ map (\<lambda>x. (fst x, score_of e iu terms x)) (filter (\<lambda>x. score_of e iu terms x > 0) docs)"
    using Cons.IH [OF rec _ disj] Cons.prems(2) by simp
  then show ?case using p s by (simp add: acc' score_of_def)
qed

lemma apply_filters_filtered:
  assumes "distinct (map fst docs)"
    and "set xs \<subseteq> set docs"
    and "distinct (map fst xs)"
    and "fst ` set acc \<inter> fst ` set xs = {}"
  shows "apply_filters (map (\<lambda>x. (fst x, sc x)) xs) docs filters acc =
         Inr (acc @ map (\<lambda>x. (fst x, sc x)) (filter (\<lambda>x. matches_filters (snd x) filters) xs))"
  using assms(2-)
proof (induction xs arbitrary: acc)
  case Nil
  then show ?case by simp
next
  case (Cons p xs)
  obtain doc_id doc where p: "p = (doc_id, doc)" by (cases p)
  have g: "getitem docs doc_id = Inr doc"
    using Cons.prems(1) p assms(1) by (auto intro: getitem_distinct)
  have fresh: "doc_id \<notin> fst ` set acc" using Cons.prems(3) p by auto
  define acc' where
    "acc' = (if matches_filters doc filters then acc @ [(doc_id, sc (doc_id, doc))] else acc)"
  have upd: "(if matches_filters doc filters then AList.update doc_id (sc (doc_id, doc)) acc
              else acc) = acc'"
    using fresh by (simp add: update_fresh acc'_def)
  have disj: "fst ` set acc' \<inter> fst ` set xs = {}"
    using Cons.prems(2,3) p by (auto simp: acc'_def)
  have step: "apply_filters (map (\<lambda>x. (fst x, sc x)) (p # xs)) docs filters acc =
      apply_filters (map (\<lambda>x. (fst x, sc x)) xs) docs filters acc'"
    using p g upd by simp
  have "apply_filters (map (\<lambda>x. (fst x, sc x)) xs) docs filters acc' =
         Inr (acc' @ map (\<lambda>x. (fst x, sc x)) (filter (\<lambda>x. matches_filters (snd x) filters) xs))"
    using Cons.IH [OF _ _ disj] Cons.prems(1,2) by simp
  then show ?case unfolding step using p by (simp add: acc'_def)
qed

lemma insort_key_map:
  "insort_key f (g x) (map g xs) = map g (insort_key (\<lambda>y. f (g y)) x xs)"
  by (induction xs) auto

lemma sort_key_map: "sort_key f (map g xs) = map g (sort_key (\<lambda>y. f (g y)) xs)"
  by (induction xs) (auto simp: insort_key_map)

lemma py_slice_subset: "set (py_slice xs i j) \<subseteq> set xs"
  unfolding py_slice_def Let_def
  by (meson set_take_subset set_drop_subset subset_trans)

lemma py_slice_map: "py_slice (map f xs) i j = map f (py_slice xs i j)"
  by (simp add: py_slice_def Let_def take_map drop_map)

lemma py_slice_beyond: "int (length xs) \<le> i \<Longrightarrow> py_slice xs i j = []"
  by (auto simp: py_slice_def Let_def)

lemma filter_survives:
  "filter (\<lambda>x. matches_filters (snd x) filters) (filter (\<lambda>x. score_of e iu terms x > 0) docs)
   = filter (survives e iu terms filters) docs"
  by (simp add: survives_def [abs_def])

text \<open>
  The result of a query whose scoring raises no error: the hits are the slice of the
  ranking, the total is its length.
\<close>

lemma search_eq:
  assumes ix: "map_of (indexes e) iu = Some index"
    and sc: "score_documents e iu (tokenize q) (documents_of (db e) iu) [] = Inr scores"
  shows "search e iu q filters facets' srt limit offset =
     Inr \<lparr>index_uid = iu, query = q,
          hits = map snd (py_slice (ranking e iu q filters) offset (offset + limit)),
          total' = length (ranking e iu q filters),
          facet_distribution =
            (if facets' \<noteq> [] then compute_facets (documents_of (db e) iu) facets' else [])\<rparr>"
proof -
  let ?docs = "documents_of (db e) iu"
  let ?g = "\<lambda>x. (fst x, score_of e iu (tokenize q) x)"
  let ?pos = "filter (\<lambda>x. score_of e iu (tokenize q) x > 0) ?docs"
  let ?surv = "filter (survives e iu (tokenize q) filters) ?docs"
  have dist: "distinct (map fst ?docs)" by (rule documents_of_distinct)
  have scores: "scores = map ?g ?pos"
    using score_documents_scored [OF sc dist] by simp
  have dpos: "distinct (map fst ?pos)" using dist by (simp add: distinct_map_filter)
  have filt: "(if filters \<noteq> [] then apply_filters scores ?docs filters [] else Inr scores)
              = Inr (map ?g ?surv)"
  proof (cases "filters = []")
    case True
    have "?surv = ?pos" by (simp add: survives_def [abs_def] True)
    then show ?thesis using True scores by simp
  next
    case False
    have "apply_filters (map ?g ?pos) ?docs filters [] =
          Inr ([] @ map ?g (filter (\<lambda>x. matches_filters (snd x) filters) ?pos))"
      by (rule apply_filters_filtered [OF dist _ dpos]) auto
    then show ?thesis using False scores by (simp only: filter_survives append_Nil if_True not_False_eq_True)
  qed
  have srt: "sort_key (\<lambda>x. - snd x) (map ?g ?surv) = map ?g (ranking e iu q filters)"
    by (simp add: sort_key_map ranking_def)
  have sub: "set (py_slice (ranking e iu q filters) offset (offset + limit)) \<subseteq> set ?docs"
    using py_slice_subset [of "ranking e iu q filters" offset "offset + limit"]
    by (auto simp: ranking_def)
  have ids: "map fst (py_slice (map ?g (ranking e iu q filters)) offset (offset + limit))
             = map fst (py_slice (ranking e iu q filters) offset (offset + limit))"
    by (simp add: py_slice_map)
  have gi: "getitems ?docs (map fst (py_slice (map ?g (ranking e iu q filters)) offset (offset + limit)))
            = Inr (map snd (py_slice (ranking e iu q filters) offset (offset + limit)))"
    unfolding ids by (rule getitems_map [OF dist sub])
  show ?thesis
    unfolding search_def
    by (simp add: ix sc filt srt gi Let_def del: apply_filters.simps)
qed

lemma search_Inr_cases:
  assumes "search e iu q filters facets' srt limit offset = Inr r"
  obtains index scores where "map_of (indexes e) iu = Some index"
    and "score_documents e iu (tokenize q) (documents_of (db e) iu) [] = Inr scores"
  using assms unfolding search_def
  by (auto simp: Let_def split: option.splits sum.splits)

lemma length_ranking:
  "length (ranking e iu q filters) =
   length (filter (survives e iu (tokenize q) filters) (documents_of (db e) iu))"
  by (simp add: ranking_def)

lemma sorted_ranking:
  "sorted_wrt (\<lambda>x y. score_of e iu (tokenize q) x \<ge> score_of e iu (tokenize q) y) (ranking e iu q filters)"
proof -
  have "sorted (map (\<lambda>x. - score_of e iu (tokenize q) x) (ranking e iu q filters))"
    unfolding ranking_def by (rule sorted_sort_key)
  then show ?thesis by (simp add: sorted_map)
qed

lemma score_documents_ok:
  assumes "map_of (indexes e) iu = Some index" and "0 \<le> total_documents index"
  shows "\<exists>scores. score_documents e iu terms docs acc = Inr scores"
proof (induction docs arbitrary: acc)
  case Nil
  then show ?case by simp
next
  case (Cons p docs)
  obtain doc_id doc where p: "p = (doc_id, doc)" by (cases p)
  show ?case
    using Cons.IH
    by (simp add: p bm25_score_def bm25_terms_sum [OF assms])
qed

text \<open>In an engine whose counters are not negative, a query on an index raises no error.\<close>

lemma search_succeeds:
  assumes "map_of (indexes e) iu = Some index" and "counters_ok e"
  shows "\<exists>r. search e iu q filters facets' srt limit offset = Inr r"
proof -
  have "0 \<le> total_documents index"
    using assms(2) assms(1) by (rule counters_ok_lookup)
  then obtain scores where
    "score_documents e iu (tokenize q) (documents_of (db e) iu) [] = Inr scores"
    using score_documents_ok [OF assms(1)] by blast
  from search_eq [OF assms(1) this] show ?thesis by blast
qed

text \<open>
  Claim C6: when a query returns a result at offset 0, its total is the number of stored
  documents of the index with a positive score that match the filters; the query returns
  at every offset, with the same total and with the hits that are the slice
  \<open>[offset : offset + limit]\<close> of the ranking, which holds the surviving documents by
  descending score; and at an offset at or beyond the total the hit list is empty.
\<close>

theorem search_total_and_pagination:
  assumes "search e iu q filters facets' srt limit 0 = Inr r0"
  shows "total' r0 = length (filter (survives e iu (tokenize q) filters) (documents_of (db e) iu))
       \<and> search e iu q filters facets' srt limit offset =
           Inr (r0\<lparr>hits := map snd (py_slice (ranking e iu q filters) offset (offset + limit))\<rparr>)
       \<and> mset (ranking e iu q filters) =
           mset (filter (survives e iu (tokenize q) filters) (documents_of (db e) iu))
       \<and> sorted_wrt (\<lambda>x y. score_of e iu (tokenize q) x \<ge> score_of e iu (tokenize q) y)
           (ranking e iu q filters)
       \<and> (int (total' r0) \<le> offset \<longrightarrow>
            search e iu q filters facets' srt limit offset = Inr (r0\<lparr>hits := []\<rparr>))"
proof -
  from assms obtain index scores where ix: "map_of (indexes e) iu = Some index"
    and sc: "score_documents e iu (tokenize q) (documents_of (db e) iu) [] = Inr scores"
    by (rule search_Inr_cases)
  have r0: "r0 = \<lparr>index_uid = iu, query = q,
          hits = map snd (py_slice (ranking e iu q filters) 0 (0 + limit)),
          total' = length (ranking e iu q filters),
          facet_distribution =
            (if facets' \<noteq> [] then compute_facets (documents_of (db e) iu) facets' else [])\<rparr>"
    using search_eq [OF ix sc, of filters facets' srt limit 0] assms by simp
  have any: "search e iu q filters facets' srt limit offset =
           Inr (r0\<lparr>hits := map snd (py_slice (ranking e iu q filters) offset (offset + limit))\<rparr>)"
    using search_eq [OF ix sc, of filters facets' srt limit offset] by (simp add: r0)
  have tot: "total' r0 = length (ranking e iu q filters)" by (simp add: r0)
  have beyond: "int (total' r0) \<le> offset \<longrightarrow>
            search e iu q filters facets' srt limit offset = Inr (r0\<lparr>hits := []\<rparr>)"
    using any tot by (simp add: py_slice_beyond)
  have ms: "mset (ranking e iu q filters) =
           mset (filter (survives e iu (tokenize q) filters) (documents_of (db e) iu))"
    by (simp add: ranking_def)
  show ?thesis
    using tot any beyond ms sorted_ranking [of e iu q filters] by (simp add: length_ranking)
qed

subsection \<open>The scenario of the specification\<close>

lemma library_documents:
  "documents_of (db library_engine) ''books'' = [(''1'', doc1), (''2'', doc2), (''3'', doc3)]"
  by code_simp

lemma library_df_dune: "document_frequency (db library_engine) ''books'' ''dune'' = 2"
  by code_simp

lemma tokenize_dune: "tokenize ''dune'' = [''dune'']"
  by code_simp

lemma dune_score_pos: "0 < dune_score"
  by (simp add: dune_score_def)

lemma library_index_nonneg: "0 \<le> total_documents library_index"
  by (simp add: library_index_def)

lemma library_idf_dune:
  "idf_of library_engine library_index ''books'' ''dune'' = ln (3 / 2)"
  using library_df_dune
  by (simp add: idf_of_def document_frequency_card [symmetric] n_docs_of_def books_index_def library_index_def)

lemma pk_library: "primary_key library_index = ''id''"
  by (simp add: library_index_def books_index_def)

lemma library_scores:
  "bm25_score library_engine ''books'' [''dune''] ''1'' doc1 = Inr dune_score"
  "bm25_score library_engine ''books'' [''dune''] ''2'' doc2 = Inr dune_score"
  "bm25_score library_engine ''books'' [''dune''] ''3'' doc3 = Inr 0"
  unfolding bm25_score_def bm25_terms_sum [OF library_engine_index library_index_nonneg]
  by (simp_all add: library_idf_dune pk_library contribution_def doc1_def doc2_def doc3_def
      tokenize_dune_world tokenize_dune_sequel tokenize_unrelated_text tokenize_1 field_weight_def dune_score_def)

lemma library_ranking:
  "ranking library_engine ''books'' ''dune'' [] = [(''1'', doc1), (''2'', doc2)]"
  using dune_score_pos
  by (simp add: ranking_def library_documents tokenize_dune survives_def score_of_def library_scores)

lemma library_search:
  "search library_engine ''books'' ''dune'' [] [] [] 20 0 =
     Inr \<lparr>index_uid = ''books'', query = ''dune'', hits = [doc1, doc2], total' = 2,
          facet_distribution = []\<rparr>"
proof -
  obtain scores where
    "score_documents library_engine ''books'' (tokenize ''dune'')
       (documents_of (db library_engine) ''books'') [] = Inr scores"
    using score_documents_ok [OF library_engine_index library_index_nonneg] by blast
  from search_eq [OF library_engine_index this, of "[]" "[]" "[]" 20 0]
  show ?thesis by (simp add: library_ranking py_slice_def)
qed

text \<open>
  Claim C6 for the query \<open>dune\<close> in the library: two of the three documents survive; offset
  1 gives the second hit, offset 2 none, and the total stays 2.
\<close>

theorem search_total_and_pagination_witness:
  "search library_engine ''books'' ''dune'' [] [] [] 20 0 =
     Inr \<lparr>index_uid = ''books'', query = ''dune'', hits = [doc1, doc2], total' = 2,
          facet_distribution = []\<rparr>
   \<and> length (filter (survives library_engine ''books'' (tokenize ''dune'') [])
        (documents_of (db library_engine) ''books'')) = 2
   \<and> search library_engine ''books'' ''dune'' [] [] [] 20 1 =
       Inr \<lparr>index_uid = ''books'', query = ''dune'', hits = [doc2], total' = 2,
            facet_distribution = []\<rparr>
   \<and> search library_engine ''books'' ''dune'' [] [] [] 20 2 =
       Inr \<lparr>index_uid = ''books'', query = ''dune'', hits = [], total' = 2,
            facet_distribution = []\<rparr>"
proof -
  have one: "map snd (py_slice (ranking library_engine ''books'' ''dune'' []) 1 (1 + 20)) = [doc2]"
    by (simp add: library_ranking py_slice_def)
  have count: "length (filter (survives library_engine ''books'' (tokenize ''dune'') [])
        (documents_of (db library_engine) ''books'')) = 2"
    using search_total_and_pagination [OF library_search, of 1] by simp
  have second: "search library_engine ''books'' ''dune'' [] [] [] 20 1 =
       Inr \<lparr>index_uid = ''books'', query = ''dune'', hits = [doc2], total' = 2,
            facet_distribution = []\<rparr>"
    using search_total_and_pagination [OF library_search, of 1] one by simp
  have beyond: "search library_engine ''books'' ''dune'' [] [] [] 20 2 =
       Inr \<lparr>index_uid = ''books'', query = ''dune'', hits = [], total' = 2,
            facet_distribution = []\<rparr>"
  proof -
    let ?r0 = "\<lparr>index_uid = ''books'', query = ''dune'', hits = [doc1, doc2], total' = 2,
            facet_distribution = []\<rparr>"
    have "int (total' ?r0) \<le> 2 \<longrightarrow>
          search library_engine ''books'' ''dune'' [] [] [] 20 2 = Inr (?r0\<lparr>hits := []\<rparr>)"
      using search_total_and_pagination [OF library_search, of 2] by blast
    then show ?thesis by simp
  qed
  show ?thesis
    using library_search count second beyond by blast
qed

subsection \<open>Queries without terms\<close>

lemma score_documents_no_terms: "score_documents e iu [] docs acc = Inr acc"
  by (induction docs arbitrary: acc) (auto simp: bm25_score_def)

lemma py_slice_Nil: "py_slice [] i j = []"
  by (simp add: py_slice_def)

text \<open>
  A query has no terms exactly when each of its tokens is a stopword or has at most two
  characters; the empty query has no token at all.
\<close>

lemma tokenize_empty_iff:
  "tokenize q = [] \<longleftrightarrow>
   list_all (\<lambda>t. t \<in> set stopwords \<or> length t \<le> 2) (findall_words [] (lower q))"
  by (auto simp: tokenize_def filter_empty_conv list_all_iff)

text \<open>
  Claim C10: on an existing index, a query whose tokenization is empty returns total 0 and
  no hits, for any filters, facets, limit and offset, and every document's score is 0.
\<close>

theorem search_without_terms:
  assumes "map_of (indexes e) iu = Some index"
    and "tokenize q = []"
  shows "search e iu q filters facets' srt limit offset =
           Inr \<lparr>index_uid = iu, query = q, hits = [], total' = 0,
                facet_distribution =
                  (if facets' \<noteq> [] then compute_facets (documents_of (db e) iu) facets' else [])\<rparr>
       \<and> bm25_score e iu (tokenize q) doc_id doc = Inr 0"
  using assms
  by (simp add: search_def Let_def score_documents_no_terms py_slice_Nil bm25_score_def)

text \<open>Claim C10 for a query of stopwords, short tokens and punctuation, with a filter.\<close>

theorem search_without_terms_witness:
  "map_of (indexes library_engine) ''books'' = Some library_index
   \<and> tokenize ''The a of, and: 42!'' = []
   \<and> search library_engine ''books'' ''The a of, and: 42!'' [(''title'', JStr ''dune world'')] [] [] 20 0 =
       Inr \<lparr>index_uid = ''books'', query = ''The a of, and: 42!'', hits = [], total' = 0,
            facet_distribution = []\<rparr>
   \<and> bm25_score library_engine ''books'' (tokenize ''The a of, and: 42!'') ''1'' doc1 = Inr 0"
proof -
  have t: "tokenize ''The a of, and: 42!'' = []" by code_simp
  show ?thesis
    using search_without_terms [OF library_engine_index t, of "[(''title'', JStr ''dune world'')]" "[]" "[]" 20 0 "''1''" doc1]
      library_engine_index t
    by simp
qed

section \<open>Facets\<close>

lemma sum_increment:
  "sum_list (map snd (increment k counts)) = sum_list (map snd counts) + 1"
  by (induction counts) (auto simp: increment_def)

lemma sum_count_facet:
  "sum_list (map snd (count_facet facet docs counts)) =
   sum_list (map snd counts) + length (filter (\<lambda>doc. map_of doc facet \<noteq> None) docs)"
  by (induction docs arbitrary: counts) (auto simp: sum_increment split: option.splits)

lemma keys_increment: "fst ` set (increment k counts) = insert k (fst ` set counts)"
  by (simp add: increment_def dom_update)

lemma keys_count_facet:
  "fst ` set (count_facet facet docs counts) =
   fst ` set counts \<union> {py_str v | doc v. doc \<in> set docs \<and> map_of doc facet = Some v}"
proof (induction docs arbitrary: counts)
  case Nil
  then show ?case by simp
next
  case (Cons doc docs)
  show ?case
  proof (cases "map_of doc facet")
    case None
    then show ?thesis using Cons.IH [of counts] by auto
  next
    case (Some v)
    then show ?thesis using Cons.IH [of "increment (py_str v) counts"]
      by (auto simp: keys_increment)
  qed
qed

lemma map_of_fold_update:
  "map_of (fold (\<lambda>k. AList.update k (g k)) ks acc) k =
   (if k \<in> set ks then Some (g k) else map_of acc k)"
  by (induction ks arbitrary: acc) (auto simp: update_conv')

lemma compute_facets_lookup:
  "facet \<in> set facets' \<Longrightarrow>
   map_of (compute_facets documents facets') facet = Some (count_facet facet (map snd documents) [])"
  unfolding compute_facets_def
  using map_of_fold_update [of "\<lambda>facet. count_facet facet (map snd documents) []" facets' "[]" facet]
  by simp

lemma search_facets:
  assumes "search e iu q filters facets' srt limit offset = Inr r"
  shows "facet_distribution r =
         (if facets' \<noteq> [] then compute_facets (documents_of (db e) iu) facets' else [])"
  using assms unfolding search_def
  by (auto simp: Let_def split: option.splits sum.splits)

text \<open>
  Claim C7: the facet distribution of a result is computed from all the stored documents of
  the index, whatever the query and the filters: for every requested facet field the
  counts sum to the number of stored documents of the index that have the field.
\<close>

theorem facets_over_whole_index:
  assumes "search e iu q filters facets' srt limit offset = Inr r"
    and "facet \<in> set facets'"
  shows "facet_distribution r = compute_facets (documents_of (db e) iu) facets'
       \<and> (\<exists>counts. map_of (facet_distribution r) facet = Some counts
            \<and> sum_list (map snd counts) =
                length (filter (\<lambda>(doc_id, doc). map_of doc facet \<noteq> None)
                          (documents_of (db e) iu))
            \<and> fst ` set counts =
                {py_str v | doc_id doc v.
                   (doc_id, doc) \<in> set (documents_of (db e) iu) \<and> map_of doc facet = Some v})"
proof -
  let ?docs = "documents_of (db e) iu"
  let ?counts = "count_facet facet (map snd ?docs) []"
  have ne: "facets' \<noteq> []" using assms(2) by auto
  have fd: "facet_distribution r = compute_facets ?docs facets'"
    using search_facets [OF assms(1)] ne by simp
  have look: "map_of (facet_distribution r) facet = Some ?counts"
    unfolding fd by (rule compute_facets_lookup [OF assms(2)])
  have "length (filter (\<lambda>doc. map_of doc facet \<noteq> None) (map snd ?docs))
      = length (filter (\<lambda>(doc_id, doc). map_of doc facet \<noteq> None) ?docs)"
    by (simp add: filter_map comp_def case_prod_unfold)
  then have total: "sum_list (map snd ?counts) =
      length (filter (\<lambda>(doc_id, doc). map_of doc facet \<noteq> None) ?docs)"
    using sum_count_facet [of facet "map snd ?docs" "[]"] by simp
  have keys: "fst ` set ?counts =
      {py_str v | doc_id doc v. (doc_id, doc) \<in> set ?docs \<and> map_of doc facet = Some v}"
    unfolding keys_count_facet by force
  show ?thesis using fd look total keys by blast
qed

lemma library_facet_search:
  "search library_engine ''books'' ''dune'' [(''title'', JStr ''dune world'')] [''title''] [] 20 0
     = Inr \<lparr>index_uid = ''books'', query = ''dune'', hits = [doc1], total' = 1,
            facet_distribution =
              [(''title'', [(''dune world'', 1), (''dune sequel'', 1), (''unrelated text'', 1)])]\<rparr>"
proof -
  obtain scores where
    "score_documents library_engine ''books'' (tokenize ''dune'')
       (documents_of (db library_engine) ''books'') [] = Inr scores"
    using score_documents_ok [OF library_engine_index library_index_nonneg] by blast
  from search_eq [OF library_engine_index this,
      of "[(''title'', JStr ''dune world'')]" "[''title'']" "[]" 20 0]
  have s: "search library_engine ''books'' ''dune'' [(''title'', JStr ''dune world'')] [''title''] [] 20 0 =
    Inr \<lparr>index_uid = ''books'', query = ''dune'',
          hits = map snd (py_slice (ranking library_engine ''books'' ''dune'' [(''title'', JStr ''dune world'')]) 0 (0 + 20)),
          total' = length (ranking library_engine ''books'' ''dune'' [(''title'', JStr ''dune world'')]),
          facet_distribution = compute_facets (documents_of (db library_engine) ''books'') [''title'']\<rparr>"
    by simp
  have r: "ranking library_engine ''books'' ''dune'' [(''title'', JStr ''dune world'')] = [(''1'', doc1)]"
  proof -
    have m: "matches_filters doc1 [(''title'', JStr ''dune world'')]"
      "\<not> matches_filters doc2 [(''title'', JStr ''dune world'')]"
      by (simp_all add: doc1_def doc2_def)
    show ?thesis
      using dune_score_pos
      by (simp add: ranking_def library_documents tokenize_dune survives_def score_of_def
          library_scores m del: matches_filters.simps)
  qed
  have f: "compute_facets (documents_of (db library_engine) ''books'') [''title'']
     = [(''title'', [(''dune world'', 1), (''dune sequel'', 1), (''unrelated text'', 1)])]"
    by code_simp
  show ?thesis unfolding s r f by (simp add: py_slice_def)
qed

text \<open>
  Claim C7 for a query that returns one hit of the library: the facet \<open>title\<close> still counts
  the three documents.
\<close>

theorem facets_over_whole_index_witness:
  "search library_engine ''books'' ''dune'' [(''title'', JStr ''dune world'')] [''title''] [] 20 0
     = Inr \<lparr>index_uid = ''books'', query = ''dune'', hits = [doc1], total' = 1,
            facet_distribution =
              [(''title'', [(''dune world'', 1), (''dune sequel'', 1), (''unrelated text'', 1)])]\<rparr>
   \<and> ''title'' \<in> set [''title'']
   \<and> compute_facets (documents_of (db library_engine) ''books'') [''title'']
       = [(''title'', [(''dune world'', 1), (''dune sequel'', 1), (''unrelated text'', 1)])]
   \<and> length (filter (\<lambda>(doc_id, doc). map_of doc ''title'' \<noteq> None)
        (documents_of (db library_engine) ''books'')) = 3"
proof -
  have m: "''title'' \<in> set [''title'']" by simp
  show ?thesis
    using facets_over_whole_index [OF library_facet_search m] library_facet_search
    by simp
qed

section \<open>Filters\<close>

text \<open>Python's \<open>==\<close> is equality after booleans have been read as integers.\<close>

lemma py_eq_as_int:
  "py_eq v w \<longleftrightarrow> as_int v = as_int w"
  "py_eq_list vs ws \<longleftrightarrow> as_int_list vs = as_int_list ws"
proof (induction v w and vs ws rule: py_eq_py_eq_list.induct)
  case (1 w)
  then show ?case by (cases w) auto
next
  case (2 s w)
  then show ?case by (cases w) auto
next
  case (3 a w)
  then show ?case by (cases w) auto
next
  case (4 i w)
  then show ?case by (cases w) auto
next
  case (5 xs w)
  then show ?case by (cases w) auto
next
  case (6 ys)
  then show ?case by (cases ys) auto
next
  case (7 x xs ys)
  then show ?case by (cases ys) auto
qed

text \<open>
  Claim C8, as the specification states it: a pair passes when the document's value equals
  the expected value, or one element of the expected list, under strict type-sensitive
  equality. The boolean \<open>True\<close> of the document matches the expected integer 1, which
  strict equality tells apart.
\<close>

theorem matches_filters_strict_equality_counterexample:
  "matches_filters dune_record [(''available'', JInt 1)]
   \<and> \<not> list_all (strict_passes dune_record) [(''available'', JInt 1)]"
  by code_simp

text \<open>
  Claim C8, amended: a document matches the filters if and only if every (field, expected)
  pair passes, where a pair fails when the field is absent from the document, and passes,
  when expected is a list, if the document's value equals one of its elements, and
  otherwise if it equals expected; equality is Python's \<open>==\<close>, which tells strings, numbers,
  \<open>None\<close> and lists apart and identifies the booleans with the integers 1 and 0.
\<close>

theorem matches_filters_python_equality:
  "matches_filters doc filters \<longleftrightarrow> (\<forall>p \<in> set filters. python_passes doc p)"
proof (induction filters)
  case Nil
  then show ?case by simp
next
  case (Cons p filters)
  obtain field v where p: "p = (field, v)" by (cases p)
  show ?case
  proof (cases "map_of doc field")
    case None
    then show ?thesis by (simp add: p python_passes_def)
  next
    case (Some dv)
    then show ?thesis using Cons.IH
      by (cases v) (auto simp: p python_passes_def py_in_def py_eq_as_int list_ex_iff)
  qed
qed

text \<open>
  The amended claim C8 on a document with a string, an integer and a boolean field: a list
  filter and an integer filter pass, and a string that looks like the integer does not.
\<close>

theorem matches_filters_python_equality_witness:
  "python_passes dune_record (''genre'', JList [JStr ''fantasy'', JStr ''scifi''])
   \<and> python_passes dune_record (''year'', JInt 1965)
   \<and> matches_filters dune_record
        [(''genre'', JList [JStr ''fantasy'', JStr ''scifi'']), (''year'', JInt 1965)]
   \<and> \<not> python_passes dune_record (''year'', JStr ''1965'')
   \<and> \<not> matches_filters dune_record
        [(''genre'', JList [JStr ''fantasy'', JStr ''scifi'']), (''year'', JStr ''1965'')]"
proof -
  have a: "python_passes dune_record (''genre'', JList [JStr ''fantasy'', JStr ''scifi''])"
    by (simp add: python_passes_def dune_record_def)
  have b: "python_passes dune_record (''year'', JInt 1965)"
    by (simp add: python_passes_def dune_record_def)
  have c: "\<not> python_passes dune_record (''year'', JStr ''1965'')"
    by (simp add: python_passes_def dune_record_def)
  have yes: "matches_filters dune_record
        [(''genre'', JList [JStr ''fantasy'', JStr ''scifi'']), (''year'', JInt 1965)]"
    using matches_filters_python_equality
            [of dune_record "[(''genre'', JList [JStr ''fantasy'', JStr ''scifi'']), (''year'', JInt 1965)]"]
      a b by simp
  have no: "\<not> matches_filters dune_record
        [(''genre'', JList [JStr ''fantasy'', JStr ''scifi'']), (''year'', JStr ''1965'')]"
    using matches_filters_python_equality
            [of dune_record "[(''genre'', JList [JStr ''fantasy'', JStr ''scifi'']), (''year'', JStr ''1965'')]"]
      c by simp
  show ?thesis using a b c yes no by blast
qed

end
